theory Spec2Isabelle
  imports Complex_Main "HOL-Library.AList"
begin

section \<open>Netflix titles pipeline: sampling, cleaning and the rating groups\<close>

text \<open>
  The script \<^verbatim>\<open>netflix_visualization.py\<close> loads a table, draws a seeded sample of
  3000 rows, cleans a copy of the sample column by column and builds charts from it.
  The table is a pandas data frame. Its columns, the Python string methods and the pandas
  operations the script calls are written here as functions; every exception the script
  can raise on the way is a value of \<open>error\<close>.
\<close>

subsection \<open>Values, columns and frames\<close>

text \<open>
  The exceptions of a run. \<^verbatim>\<open>InsufficientRowsError\<close> is the name the specification gives
  to a sample larger than the table; the script defines no such class and no statement of
  it, or of the library calls below, raises it.
\<close>

datatype error = ValueError | KeyError | AttributeError | IndexError | InsufficientRowsError

text \<open>
  One value of a column as Python sees it: the missing value (\<^verbatim>\<open>NaN\<close>, \<^verbatim>\<open>None\<close>,
  \<^verbatim>\<open>NaT\<close>; all of them \<^verbatim>\<open>pd.isna\<close>), a string, a number or a timestamp. A number is
  a real number or one of the two infinities of \<^verbatim>\<open>float64\<close>; that \<^verbatim>\<open>float64\<close> keeps 53 bits
  of a number is left out.
\<close>

datatype number = Finite real | PlusInfinity | MinusInfinity

datatype 'd cell = Null | Str string | Num number | Date 'd

text \<open>
  A column by its dtype: \<^verbatim>\<open>object\<close> (text, with missing values), numeric
  (\<^verbatim>\<open>int64\<close>, \<^verbatim>\<open>float64\<close> and the nullable \<^verbatim>\<open>Int64\<close>, told apart by nothing the
  script does) and \<^verbatim>\<open>datetime64\<close>. \<open>'d\<close> is the type of timestamps.
\<close>

datatype 'd column =
  Object "string option list" | Numeric "number option list" | Datetime "'d option list"

fun cells :: "'d column \<Rightarrow> 'd cell list" where
  "cells (Object xs) = map (\<lambda>x. case x of None \<Rightarrow> Null | Some s \<Rightarrow> Str s) xs"
| "cells (Numeric xs) = map (\<lambda>x. case x of None \<Rightarrow> Null | Some r \<Rightarrow> Num r) xs"
| "cells (Datetime xs) = map (\<lambda>x. case x of None \<Rightarrow> Null | Some d \<Rightarrow> Date d) xs"

fun is_object :: "'d column \<Rightarrow> bool" where
  "is_object (Object xs) = True"
| "is_object c = False"

text \<open>
  A frame is its columns in order, each under its name. \<^verbatim>\<open>df[name]\<close> raises
  \<^verbatim>\<open>KeyError\<close> for a name the frame does not have; \<^verbatim>\<open>df[name] = c\<close> replaces the
  column of that name where it stands, or adds it last.
\<close>

type_synonym 'd frame = "(string \<times> 'd column) list"

definition getitem :: "'d frame \<Rightarrow> string \<Rightarrow> error + 'd column" where
  "getitem df name = (case map_of df name of None \<Rightarrow> Inl KeyError | Some c \<Rightarrow> Inr c)"

definition setitem :: "'d frame \<Rightarrow> string \<Rightarrow> 'd column \<Rightarrow> 'd frame" where
  "setitem df name c = AList.update name c df"

text \<open>A statement that raises ends the run: the rest is skipped.\<close>

definition and_then :: "error + 'a \<Rightarrow> ('a \<Rightarrow> error + 'b) \<Rightarrow> error + 'b" where
  "and_then x f = (case x of Inl e \<Rightarrow> Inl e | Inr v \<Rightarrow> f v)"

text \<open>
  What the script takes from pandas without this theory fixing it, all of it about dates:
  the timestamp pandas reads from a text of a column (\<open>None\<close> where it reads none; the
  column is given too, since pandas may settle the date format on its first value), the
  timestamp of a number, and the calendar year of a timestamp.
\<close>

record 'd pandas =
  date_parse :: "string option list \<Rightarrow> string \<Rightarrow> 'd option"
  date_of_number :: "number \<Rightarrow> 'd option"
  year_of :: "'d \<Rightarrow> int"

subsection \<open>Python string methods\<close>

text \<open>
  A character is a code point below 256. \<^verbatim>\<open>str.isspace\<close> holds in that range for
  U+0009..U+000D, U+001C..U+0020, U+0085 and U+00A0.
\<close>

definition whitespace :: "char list" where
  "whitespace =
     [CHR 0x09, CHR 0x0A, CHR 0x0B, CHR 0x0C, CHR 0x0D, CHR 0x1C, CHR 0x1D, CHR 0x1E,
      CHR 0x1F, CHR 0x20, CHR 0x85, CHR 0xA0]"

definition isspace :: "char \<Rightarrow> bool" where
  "isspace c = (c \<in> set whitespace)"

definition lstrip :: "string \<Rightarrow> string" where
  "lstrip s = dropWhile isspace s"

definition rstrip :: "string \<Rightarrow> string" where
  "rstrip s = rev (dropWhile isspace (rev s))"

text \<open>\<^verbatim>\<open>s.strip()\<close>\<close>

definition strip :: "string \<Rightarrow> string" where
  "strip s = rstrip (lstrip s)"

text \<open>
  \<^verbatim>\<open>s.split(sep, maxsplit)\<close> for a separator of one character. \<open>m\<close> is the number of
  splits still allowed, \<open>None\<close> for Python's \<^verbatim>\<open>-1\<close> (no limit); \<open>cur\<close> holds the
  characters of the current part, last one first.
\<close>

fun split_scan :: "char \<Rightarrow> nat option \<Rightarrow> string \<Rightarrow> string \<Rightarrow> string list" where
  "split_scan sep m cur [] = [rev cur]"
| "split_scan sep m cur (c # cs) =
     (if c = sep \<and> m \<noteq> Some 0
      then rev cur # split_scan sep (map_option (\<lambda>k. k - 1) m) [] cs
      else split_scan sep m (c # cur) cs)"

definition py_split :: "char \<Rightarrow> nat option \<Rightarrow> string \<Rightarrow> string list" where
  "py_split sep m s = split_scan sep m [] s"

subsection \<open>Sampling (section 2 of the script)\<close>

text \<open>
  The number of rows of a frame is the length of its columns; \<open>row_at\<close> is one row, the
  values under their column names.
\<close>

definition col_len :: "'d column \<Rightarrow> nat" where
  "col_len c = length (cells c)"

definition nrows :: "'d frame \<Rightarrow> nat" where
  "nrows df = (case df of [] \<Rightarrow> 0 | p # ps \<Rightarrow> col_len (snd p))"

definition row_at :: "'d frame \<Rightarrow> nat \<Rightarrow> (string \<times> 'd cell) list" where
  "row_at df i = map (\<lambda>p. (fst p, cells (snd p) ! i)) df"

text \<open>
  What the script takes from numpy: the generator \<^verbatim>\<open>RandomState(seed)\<close> and the
  permutation of \<open>0, ..., n - 1\<close> a generator draws. \<open>'g\<close> is the type of generators.
\<close>

record 'g numpy =
  seeded :: "nat \<Rightarrow> 'g"
  permutation :: "'g \<Rightarrow> nat \<Rightarrow> nat list"

text \<open>
  \<^verbatim>\<open>df.sample(n=n, random_state=state)\<close>. An integer \<^verbatim>\<open>random_state\<close> seeds a generator
  of its own; without one (\<open>None\<close>) pandas draws from numpy's global generator, here
  \<open>global\<close>. The positions are \<^verbatim>\<open>choice(len(df), size=n, replace=False)\<close>, which raises
  \<^verbatim>\<open>ValueError\<close> ("Cannot take a larger sample than population when 'replace=False'")
  for \<open>n\<close> above the number of rows and else takes the first \<open>n\<close> of a permutation;
  \<^verbatim>\<open>take\<close> then builds a new frame of the rows at these positions, in this order, and
  raises \<^verbatim>\<open>IndexError\<close> for a position out of bounds.
\<close>

definition random_state :: "'g numpy \<Rightarrow> 'g \<Rightarrow> nat option \<Rightarrow> 'g" where
  "random_state N global state = (case state of None \<Rightarrow> global | Some seed \<Rightarrow> seeded N seed)"

definition choice :: "'g numpy \<Rightarrow> 'g \<Rightarrow> nat \<Rightarrow> nat \<Rightarrow> error + nat list" where
  "choice N rs a k =
     (if k > a then Inl ValueError else Inr (take k (permutation N rs a)))"

fun take_column :: "nat list \<Rightarrow> 'd column \<Rightarrow> 'd column" where
  "take_column idx (Object xs) = Object (map (\<lambda>i. xs ! i) idx)"
| "take_column idx (Numeric xs) = Numeric (map (\<lambda>i. xs ! i) idx)"
| "take_column idx (Datetime xs) = Datetime (map (\<lambda>i. xs ! i) idx)"

definition take_rows :: "'d frame \<Rightarrow> nat list \<Rightarrow> error + 'd frame" where
  "take_rows df idx =
     (if \<forall>i\<in>set idx. i < nrows df
      then Inr (map (\<lambda>p. (fst p, take_column idx (snd p))) df)
      else Inl IndexError)"

definition sample :: "'g numpy \<Rightarrow> 'g \<Rightarrow> 'd frame \<Rightarrow> nat \<Rightarrow> nat option \<Rightarrow> error + 'd frame" where
  "sample N global df n state =
     and_then (choice N (random_state N global state) (nrows df) n) (\<lambda>idx.
     take_rows df idx)"

text \<open>\<^verbatim>\<open>df_subset = df_full.sample(n=3000, random_state=42)\<close>\<close>

definition df_subset :: "'g numpy \<Rightarrow> 'g \<Rightarrow> 'd frame \<Rightarrow> error + 'd frame" where
  "df_subset N global df_full = sample N global df_full 3000 (Some 42)"

subsection \<open>Data cleaning (section 3 of the script)\<close>

text \<open>
  The \<^verbatim>\<open>.str\<close> accessor of a column raises \<^verbatim>\<open>AttributeError\<close> unless the column is
  text.
\<close>

definition str_accessor :: "'d column \<Rightarrow> error + string option list" where
  "str_accessor c = (case c of Object xs \<Rightarrow> Inr xs | _ \<Rightarrow> Inl AttributeError)"

definition str_strip :: "string option list \<Rightarrow> string option list" where
  "str_strip xs = map (map_option strip) xs"

text \<open>
  \<^verbatim>\<open>
  str_cols = df.select_dtypes(include="object").columns
  for col in str_cols:
      df[col] = df[col].str.strip()
  \<close>
\<close>

definition str_cols :: "'d frame \<Rightarrow> string list" where
  "str_cols df = map fst (filter (\<lambda>p. is_object (snd p)) df)"

fun strip_loop :: "string list \<Rightarrow> 'd frame \<Rightarrow> error + 'd frame" where
  "strip_loop [] df = Inr df"
| "strip_loop (col # cols) df =
     and_then (getitem df col) (\<lambda>c.
     and_then (str_accessor c) (\<lambda>xs.
     strip_loop cols (setitem df col (Object (str_strip xs)))))"

definition strip_whitespace :: "'d frame \<Rightarrow> error + 'd frame" where
  "strip_whitespace df = strip_loop (str_cols df) df"

text \<open>What \<^verbatim>\<open>.str.strip()\<close> in the loop does to a column of each dtype.\<close>

definition strip_column :: "'d column \<Rightarrow> 'd column" where
  "strip_column c = (case c of Object xs \<Rightarrow> Object (str_strip xs) | _ \<Rightarrow> c)"

text \<open>
  \<^verbatim>\<open>
  df["date_added"] = pd.to_datetime(df["date_added"], errors="coerce")
  df["year_added"] = df["date_added"].dt.year.astype("Int64")
  \<close>
  With \<^verbatim>\<open>errors="coerce"\<close> a value that is no date becomes \<^verbatim>\<open>NaT\<close>; a column of
  timestamps is returned as it is. \<^verbatim>\<open>.dt\<close> is there for timestamps only.
\<close>

definition datetime_values :: "'d pandas \<Rightarrow> 'd column \<Rightarrow> 'd option list" where
  "datetime_values L c =
     (case c of
        Object xs \<Rightarrow> map (\<lambda>x. case x of None \<Rightarrow> None | Some s \<Rightarrow> date_parse L xs s) xs
      | Numeric xs \<Rightarrow> map (\<lambda>x. case x of None \<Rightarrow> None | Some r \<Rightarrow> date_of_number L r) xs
      | Datetime xs \<Rightarrow> xs)"

definition to_datetime :: "'d pandas \<Rightarrow> 'd column \<Rightarrow> 'd column" where
  "to_datetime L c = Datetime (datetime_values L c)"

definition dt_year :: "'d pandas \<Rightarrow> 'd column \<Rightarrow> error + 'd column" where
  "dt_year L c =
     (case c of
        Datetime xs \<Rightarrow> Inr (Numeric (map (map_option (\<lambda>d. Finite (real_of_int (year_of L d)))) xs))
      | _ \<Rightarrow> Inl AttributeError)"

definition parse_date_added :: "'d pandas \<Rightarrow> 'd frame \<Rightarrow> error + 'd frame" where
  "parse_date_added L df =
     and_then (getitem df ''date_added'') (\<lambda>c.
     let df1 = setitem df ''date_added'' (to_datetime L c) in
     and_then (getitem df1 ''date_added'') (\<lambda>d.
     and_then (dt_year L d) (\<lambda>y.
     Inr (setitem df1 ''year_added'' y))))"

text \<open>
  \<^verbatim>\<open>
  duration_split = df["duration"].str.split(" ", n=1, expand=True)
  df["duration_int"] = pd.to_numeric(duration_split[0], errors="coerce")
  df["duration_type"] = duration_split[1]
  \<close>
  \<^verbatim>\<open>.str.split\<close> with a separator of one character calls \<^verbatim>\<open>x.split(sep, n)\<close> on
  every text. With \<^verbatim>\<open>expand=True\<close> the parts become the columns \<open>0, 1, ...\<close> of a new
  frame, as many as the longest list of parts has; a shorter list is filled up with
  \<^verbatim>\<open>None\<close> and a missing text gives a row of missing values. So \<^verbatim>\<open>duration_split[1]\<close>
  raises \<^verbatim>\<open>KeyError\<close> when no text of the column has a second part.
\<close>

definition str_split_expand ::
  "char \<Rightarrow> nat option \<Rightarrow> string option list \<Rightarrow> string option list list" where
  "str_split_expand sep n xs =
     (let parts = map (map_option (py_split sep n)) xs;
          width = fold max (map (\<lambda>p. case p of None \<Rightarrow> 1 | Some ps \<Rightarrow> length ps) parts) 0
      in map (\<lambda>j. map (\<lambda>p. case p of None \<Rightarrow> None
                              | Some ps \<Rightarrow> if j < length ps then Some (ps ! j) else None)
                     parts)
             [0..<width])"

definition expand_getitem :: "string option list list \<Rightarrow> nat \<Rightarrow> error + string option list" where
  "expand_getitem ds j = (if j < length ds then Inr (ds ! j) else Inl KeyError)"

text \<open>
  \<^verbatim>\<open>pd.to_numeric(..., errors="coerce")\<close> on a text. The empty text is missing. Any other
  text goes to pandas' \<^verbatim>\<open>floatify\<close>, which reads a decimal numeral with its C routine
  \<^verbatim>\<open>precise_xstrtod\<close>: whitespace of C (U+0009..U+000D and the space), a sign or none,
  digits, a point and more digits or none, at least one digit in all, an exponent or none
  (\<^verbatim>\<open>e\<close> or \<^verbatim>\<open>E\<close>, a sign or none, one to 17 digits), whitespace, and nothing after it; a
  number \<^verbatim>\<open>float64\<close> cannot hold, of magnitude \<open>2^1024\<close> or more, is refused (a numeral
  below \<open>10^308\<close> by the count of its digits and its exponent is not that large). A text
  that is no such numeral is an infinity if it spells one, whatever the case of its
  letters; every other text raises, and \<^verbatim>\<open>errors="coerce"\<close> makes it a missing value. The
  value of a numeral is the number its digits denote: that pandas reads the first 17
  digits only is left out with the rounding.
\<close>

definition digit_value :: "char \<Rightarrow> nat option" where
  "digit_value c =
     map_of [(CHR ''0'', 0), (CHR ''1'', 1), (CHR ''2'', 2), (CHR ''3'', 3), (CHR ''4'', 4),
             (CHR ''5'', 5), (CHR ''6'', 6), (CHR ''7'', 7), (CHR ''8'', 8), (CHR ''9'', 9)] c"

definition is_digit :: "char \<Rightarrow> bool" where
  "is_digit c = (digit_value c \<noteq> None)"

fun digits_nat :: "nat \<Rightarrow> string \<Rightarrow> nat" where
  "digits_nat acc [] = acc"
| "digits_nat acc (c # cs) =
     digits_nat (10 * acc + (case digit_value c of None \<Rightarrow> 0 | Some d \<Rightarrow> d)) cs"

definition isspace_ascii :: "char \<Rightarrow> bool" where
  "isspace_ascii c = (c \<in> set [CHR 0x09, CHR 0x0A, CHR 0x0B, CHR 0x0C, CHR 0x0D, CHR 0x20])"

definition sign_of :: "string \<Rightarrow> bool \<times> string" where
  "sign_of s =
     (case s of
        [] \<Rightarrow> (False, [])
      | c # cs \<Rightarrow> if c = CHR ''-'' then (True, cs) else if c = CHR ''+'' then (False, cs)
                  else (False, s))"

definition xstrtod :: "string \<Rightarrow> real option" where
  "xstrtod s =
     (let (negative, t1) = sign_of (dropWhile isspace_ascii s);
          int_digits = takeWhile is_digit t1;
          t2 = dropWhile is_digit t1;
          point = (t2 \<noteq> [] \<and> hd t2 = CHR ''.'');
          frac_digits = (if point then takeWhile is_digit (tl t2) else []);
          t3 = (if point then dropWhile is_digit (tl t2) else t2);
          sci = (t3 \<noteq> [] \<and> (hd t3 = CHR ''e'' \<or> hd t3 = CHR ''E''));
          (exp_negative, t4) = (if sci then sign_of (tl t3) else (False, t3));
          exp_digits = (if sci then takeWhile is_digit t4 else []);
          t5 = (if sci then dropWhile is_digit t4 else t3);
          n = int (digits_nat 0 exp_digits);
          exponent = (if exp_negative then - n else n) - int (length frac_digits);
          m = real (digits_nat 0 (int_digits @ frac_digits));
          magnitude = (if exponent < 0 then m / 10 ^ nat (- exponent) else m * 10 ^ nat exponent);
          too_big = (if int (length (int_digits @ frac_digits)) + exponent \<le> 308 then False
                     else 2 ^ 1024 \<le> magnitude)
      in if int_digits @ frac_digits = [] \<or> (sci \<and> (exp_digits = [] \<or> 17 < length exp_digits))
            \<or> dropWhile isspace_ascii t5 \<noteq> [] \<or> too_big
         then None
         else Some (if negative then - magnitude else magnitude))"

definition lower_ascii :: "char \<Rightarrow> char" where
  "lower_ascii c =
     (case map_of [(CHR ''I'', CHR ''i''), (CHR ''N'', CHR ''n''), (CHR ''F'', CHR ''f''),
                   (CHR ''T'', CHR ''t''), (CHR ''Y'', CHR ''y'')] c of
        None \<Rightarrow> c | Some l \<Rightarrow> l)"

definition floatify :: "string \<Rightarrow> number option" where
  "floatify s =
     (case xstrtod s of
        Some v \<Rightarrow> Some (Finite v)
      | None \<Rightarrow>
          if map lower_ascii s \<in> set [''inf'', ''+inf'', ''infinity'', ''+infinity'']
          then Some PlusInfinity
          else if map lower_ascii s \<in> set [''-inf'', ''-infinity''] then Some MinusInfinity
          else None)"

definition to_numeric_str :: "string \<Rightarrow> number option" where
  "to_numeric_str s = (if s = [] then None else floatify s)"

definition to_numeric :: "string option list \<Rightarrow> number option list" where
  "to_numeric xs = map (\<lambda>x. case x of None \<Rightarrow> None | Some s \<Rightarrow> to_numeric_str s) xs"

definition split_duration :: "'d frame \<Rightarrow> error + 'd frame" where
  "split_duration df =
     and_then (getitem df ''duration'') (\<lambda>c.
     and_then (str_accessor c) (\<lambda>xs.
     let duration_split = str_split_expand CHR '' '' (Some 1) xs in
     and_then (expand_getitem duration_split 0) (\<lambda>p0.
     let df1 = setitem df ''duration_int'' (Numeric (to_numeric p0)) in
     and_then (expand_getitem duration_split 1) (\<lambda>p1.
     Inr (setitem df1 ''duration_type'' (Object p1))))))"

text \<open>
  \<^verbatim>\<open>
  def get_first_country(x: str | None) -> str | None:
      if pd.isna(x):
          return None
      return x.split(",")[0].strip()

  df["country_primary"] = df["country"].apply(get_first_country)
  \<close>
  A number or a timestamp has no \<^verbatim>\<open>split\<close>. \<^verbatim>\<open>get_main_genre\<close> has the same body.
\<close>

fun get_first_country :: "'d cell \<Rightarrow> error + string option" where
  "get_first_country Null = Inr None"
| "get_first_country (Str x) =
     (case py_split CHR '','' None x of
        [] \<Rightarrow> Inl IndexError
      | p # ps \<Rightarrow> Inr (Some (strip p)))"
| "get_first_country (Num r) = Inl AttributeError"
| "get_first_country (Date d) = Inl AttributeError"

fun get_main_genre :: "'d cell \<Rightarrow> error + string option" where
  "get_main_genre Null = Inr None"
| "get_main_genre (Str x) =
     (case py_split CHR '','' None x of
        [] \<Rightarrow> Inl IndexError
      | p # ps \<Rightarrow> Inr (Some (strip p)))"
| "get_main_genre (Num r) = Inl AttributeError"
| "get_main_genre (Date d) = Inl AttributeError"

text \<open>\<^verbatim>\<open>Series.apply(f)\<close>: \<open>f\<close> on every value in turn, up to the first that raises.\<close>

fun series_apply :: "('d cell \<Rightarrow> error + 'b) \<Rightarrow> 'd cell list \<Rightarrow> error + 'b list" where
  "series_apply f [] = Inr []"
| "series_apply f (x # xs) =
     and_then (f x) (\<lambda>y. and_then (series_apply f xs) (\<lambda>ys. Inr (y # ys)))"

definition extract_country :: "'d frame \<Rightarrow> error + 'd frame" where
  "extract_country df =
     and_then (getitem df ''country'') (\<lambda>c.
     and_then (series_apply get_first_country (cells c)) (\<lambda>ys.
     Inr (setitem df ''country_primary'' (Object ys))))"

definition extract_genre :: "'d frame \<Rightarrow> error + 'd frame" where
  "extract_genre df =
     and_then (getitem df ''listed_in'') (\<lambda>c.
     and_then (series_apply get_main_genre (cells c)) (\<lambda>ys.
     Inr (setitem df ''main_genre'' (Object ys))))"

text \<open>The five steps in the order of the script, on the frame \<^verbatim>\<open>df\<close>.\<close>

definition data_cleaning :: "'d pandas \<Rightarrow> 'd frame \<Rightarrow> error + 'd frame" where
  "data_cleaning L df =
     and_then (strip_whitespace df) (\<lambda>df1.
     and_then (parse_date_added L df1) (\<lambda>df2.
     and_then (split_duration df2) (\<lambda>df3.
     and_then (extract_country df3) (\<lambda>df4.
     extract_genre df4))))"

subsection \<open>Rating groups (section 4.3 of the script)\<close>

text \<open>
  \<^verbatim>\<open>
  def simplify_rating(r: str | None) -> str:
      if r in ["TV-MA", "R", "NC-17"]:
          return "Mature"
      elif r in ["TV-14", "PG-13"]:
          return "Teen"
      else:
          return "Family/Kids"
  \<close>
  \<^verbatim>\<open>in\<close> compares with \<^verbatim>\<open>==\<close>, which no missing value, number or timestamp
  satisfies against a string.
\<close>

definition simplify_rating :: "'d cell \<Rightarrow> string" where
  "simplify_rating r =
     (if r \<in> set [Str ''TV-MA'', Str ''R'', Str ''NC-17''] then ''Mature''
      else if r \<in> set [Str ''TV-14'', Str ''PG-13''] then ''Teen''
      else ''Family/Kids'')"

text \<open>
  \<^verbatim>\<open>
  df_genre = df[df["main_genre"].notna() & df["rating"].notna()].copy()
  df_genre["rating_group"] = df_genre["rating"].apply(simplify_rating)
  \<close>
  \<^verbatim>\<open>df[mask]\<close> keeps the rows where the mask holds, in every column.
\<close>

definition notna :: "'d column \<Rightarrow> bool list" where
  "notna c = map (\<lambda>x. x \<noteq> Null) (cells c)"

definition mask_and :: "bool list \<Rightarrow> bool list \<Rightarrow> bool list" where
  "mask_and a b = map (\<lambda>p. fst p \<and> snd p) (zip a b)"

fun mask_column :: "bool list \<Rightarrow> 'd column \<Rightarrow> 'd column" where
  "mask_column m (Object xs) = Object (map fst (filter snd (zip xs m)))"
| "mask_column m (Numeric xs) = Numeric (map fst (filter snd (zip xs m)))"
| "mask_column m (Datetime xs) = Datetime (map fst (filter snd (zip xs m)))"

definition boolean_index :: "'d frame \<Rightarrow> bool list \<Rightarrow> 'd frame" where
  "boolean_index df m = map (\<lambda>p. (fst p, mask_column m (snd p))) df"

definition df_genre :: "'d frame \<Rightarrow> error + 'd frame" where
  "df_genre df =
     and_then (getitem df ''main_genre'') (\<lambda>g.
     and_then (getitem df ''rating'') (\<lambda>r.
     let df_genre = boolean_index df (mask_and (notna g) (notna r)) in
     and_then (getitem df_genre ''rating'') (\<lambda>r'.
     Inr (setitem df_genre ''rating_group''
            (Object (map (\<lambda>x. Some (simplify_rating x)) (cells r')))))))"

subsection \<open>The run and its store\<close>

text \<open>
  The frames of a run live in a store, each at its address; a variable of the script holds
  an address. \<^verbatim>\<open>read_csv\<close>, \<^verbatim>\<open>sample\<close> and \<^verbatim>\<open>copy\<close> each build a new frame, at a new
  address; \<^verbatim>\<open>df[name] = c\<close> changes the frame at the address \<^verbatim>\<open>df\<close> holds, and whoever
  holds the same address sees the change. \<^verbatim>\<open>to_csv\<close> writes the frame as it is at that
  moment.
\<close>

record 'd world =
  heap :: "'d frame list"
  var_df_full :: nat
  var_df_subset :: nat
  var_df :: nat
  subset_csv :: "'d frame"

definition alloc :: "'d frame list \<Rightarrow> 'd frame \<Rightarrow> 'd frame list \<times> nat" where
  "alloc h f = (h @ [f], length h)"

text \<open>Section 3 of the script, every statement of it reading and assigning columns of
  the frame at the address \<open>a\<close>.\<close>

definition clean_at :: "'d pandas \<Rightarrow> nat \<Rightarrow> 'd frame list \<Rightarrow> error + 'd frame list" where
  "clean_at L a h = and_then (data_cleaning L (h ! a)) (\<lambda>c. Inr (h[a := c]))"

text \<open>
  \<^verbatim>\<open>
  df_full = pd.read_csv("data/netflix_titles.csv")
  df_subset = df_full.sample(n=3000, random_state=42)
  df_subset.to_csv("data/netflix_titles_subset_3000.csv", index=False)
  df = df_subset.copy()
  ... section 3 ...
  \<close>
  \<open>csv\<close> is the table \<^verbatim>\<open>read_csv\<close> has loaded.
\<close>

definition script :: "'d pandas \<Rightarrow> 'g numpy \<Rightarrow> 'g \<Rightarrow> 'd frame \<Rightarrow> error + 'd world" where
  "script L N global csv =
     (let (h0, a_full) = alloc [] csv in
      and_then (df_subset N global (h0 ! a_full)) (\<lambda>s.
      let (h1, a_subset) = alloc h0 s;
          file = h1 ! a_subset;
          (h2, a_df) = alloc h1 (h1 ! a_subset)
      in and_then (clean_at L a_df h2) (\<lambda>h3.
         Inr \<lparr>heap = h3, var_df_full = a_full, var_df_subset = a_subset, var_df = a_df,
              subset_csv = file\<rparr>)))"

subsection \<open>Tables to run the script on\<close>

text \<open>
  A generator that draws the positions last to first, and a pandas that reads one date,
  with timestamps written as their year. \<open>example_rows\<close> is a table of four titles with
  the given durations; \<open>example_cleaned\<close> is what the cleaning makes of it for the
  durations "90 min", "2 Seasons", the empty text and a missing one. \<open>example_table\<close> has
  3000 titles, all with the given duration.
\<close>

definition example_numpy :: "nat numpy" where
  "example_numpy = \<lparr>seeded = \<lambda>s. s, permutation = \<lambda>g n. rev [0..<n]\<rparr>"

definition example_pandas :: "int pandas" where
  "example_pandas =
     \<lparr>date_parse = \<lambda>col s. if s = ''March 5, 2019'' then Some 2019 else None,
      date_of_number = \<lambda>r. None,
      year_of = \<lambda>d. d\<rparr>"

definition example_rows :: "string option list \<Rightarrow> int frame" where
  "example_rows durations =
     [(''title'', Object [Some ''A '', Some ''B'', Some ''C'', Some ''D'']),
      (''date_added'',
       Object [Some ''March 5, 2019'', None, Some ''soon'', Some '' March 5, 2019'']),
      (''release_year'', Numeric [Some (Finite 2018), Some (Finite 2019), Some (Finite 2020), Some (Finite 2021)]),
      (''rating'', Object [Some ''TV-MA'', None, Some ''PG-13'', Some ''TV-Y'']),
      (''duration'', Object durations),
      (''country'',
       Object [Some ''United States, India'', None, Some ''India'', Some '' France , Spain'']),
      (''listed_in'',
       Object [Some ''Dramas, International Movies'', Some '' Dramas '', None,
               Some ''Comedies''])]"

definition example_cleaned :: "int frame" where
  "example_cleaned =
     [(''title'', Object [Some ''A'', Some ''B'', Some ''C'', Some ''D'']),
      (''date_added'', Datetime [Some 2019, None, None, Some 2019]),
      (''release_year'', Numeric [Some (Finite 2018), Some (Finite 2019), Some (Finite 2020), Some (Finite 2021)]),
      (''rating'', Object [Some ''TV-MA'', None, Some ''PG-13'', Some ''TV-Y'']),
      (''duration'', Object [Some ''90 min'', Some ''2 Seasons'', Some [], None]),
      (''country'',
       Object [Some ''United States, India'', None, Some ''India'', Some ''France , Spain'']),
      (''listed_in'',
       Object [Some ''Dramas, International Movies'', Some ''Dramas'', None, Some ''Comedies'']),
      (''year_added'', Numeric [Some (Finite 2019), None, None, Some (Finite 2019)]),
      (''duration_int'', Numeric [Some (Finite 90), Some (Finite 2), None, None]),
      (''duration_type'', Object [Some ''min'', Some ''Seasons'', None, None]),
      (''country_primary'',
       Object [Some ''United States'', None, Some ''India'', Some ''France'']),
      (''main_genre'', Object [Some ''Dramas'', Some ''Dramas'', None, Some ''Comedies''])]"

definition example_table :: "string \<Rightarrow> int frame" where
  "example_table duration =
     [(''show_id'', Numeric (map (\<lambda>i. Some (Finite (real i))) [0..<3000])),
      (''date_added'', Object (replicate 3000 (Some ''March 5, 2019''))),
      (''rating'', Object (replicate 3000 (Some ''TV-MA''))),
      (''duration'', Object (replicate 3000 (Some duration))),
      (''country'', Object (replicate 3000 (Some ''United States, India''))),
      (''listed_in'', Object (replicate 3000 (Some '' Dramas '')))]"

subsection \<open>The duration split as the specification words it\<close>



section \<open>Facts about the string methods\<close>

text \<open>
  A text is its stripped text between two runs of whitespace, and the stripped text neither
  starts nor ends with whitespace; this fixes \<open>strip\<close>.
\<close>

lemma strip_unique:
  assumes a: "\<forall>x\<in>set a. isspace x" and b: "\<forall>x\<in>set b. isspace x"
    and m: "m = [] \<or> (\<not> isspace (hd m) \<and> \<not> isspace (last m))"
  shows "strip (a @ m @ b) = m"
proof (cases "m = []")
  case True
  with a b show ?thesis
    by (auto simp: strip_def lstrip_def rstrip_def dest: set_dropWhileD)
next
  case False
  with m have h: "\<not> isspace (hd m)" and l: "\<not> isspace (last m)" by auto
  from False h have "dropWhile isspace (m @ b) = m @ b"
    by (cases m) auto
  with a have 1: "lstrip (a @ m @ b) = m @ b" by (simp add: lstrip_def)
  from False l have "dropWhile isspace (rev m) = rev m"
    by (cases "rev m") (auto simp: last_rev [symmetric] hd_rev)
  moreover from b have "dropWhile isspace (rev b @ rev m) = dropWhile isspace (rev m)"
    by (intro dropWhile_append2) simp
  ultimately have "rstrip (m @ b) = m" by (simp add: rstrip_def)
  with 1 show ?thesis by (simp add: strip_def)
qed

lemma strip_decompose:
  "\<exists>a b. s = a @ strip s @ b \<and> (\<forall>x\<in>set a. isspace x) \<and> (\<forall>x\<in>set b. isspace x)"
proof -
  let ?u = "dropWhile isspace s"
  have 1: "s = takeWhile isspace s @ ?u" by simp
  have "rev (dropWhile isspace (rev ?u)) @ rev (takeWhile isspace (rev ?u)) = ?u"
    by (simp only: rev_append [symmetric] takeWhile_dropWhile_id rev_rev_ident)
  then have 2: "?u = strip s @ rev (takeWhile isspace (rev ?u))"
    by (simp only: strip_def lstrip_def rstrip_def)
  have 3: "\<forall>x\<in>set (takeWhile isspace s). isspace x" by (auto dest: set_takeWhileD)
  have 4: "\<forall>x\<in>set (rev (takeWhile isspace (rev ?u))). isspace x" by (auto dest: set_takeWhileD)
  from 1 2 have "s = takeWhile isspace s @ strip s @ rev (takeWhile isspace (rev ?u))" by simp
  with 3 4 show ?thesis by blast
qed

lemma strip_ends:
  "strip s = [] \<or> (\<not> isspace (hd (strip s)) \<and> \<not> isspace (last (strip s)))"
proof (cases "strip s = []")
  case True then show ?thesis by simp
next
  case False
  let ?u = "dropWhile isspace s"
  let ?r = "dropWhile isspace (rev ?u)"
  have s: "strip s = rev ?r" by (simp add: strip_def lstrip_def rstrip_def)
  with False have r: "?r \<noteq> []" by simp
  then have "\<not> isspace (hd ?r)" by (rule hd_dropWhile)
  with r s have l: "\<not> isspace (last (strip s))" by (simp add: last_rev)
  have u: "?u \<noteq> []"
  proof
    assume e: "?u = []"
    have "?r = []" unfolding e by simp
    with r show False ..
  qed
  then have hu: "\<not> isspace (hd ?u)" by (rule hd_dropWhile)
  have "rev ?r @ rev (takeWhile isspace (rev ?u)) = ?u"
    by (simp only: rev_append [symmetric] takeWhile_dropWhile_id rev_rev_ident)
  then have "?u = strip s @ rev (takeWhile isspace (rev ?u))" by (simp only: s)
  with False have "hd ?u = hd (strip s)" by (metis hd_append2)
  with hu l show ?thesis by simp
qed

lemma strip_idem: "strip (strip s) = strip s"
  using strip_unique [of "[]" "[]" "strip s"] strip_ends [of s] by simp

lemma strip_append_left: "\<forall>x\<in>set a. isspace x \<Longrightarrow> strip (a @ t) = strip t"
  by (simp add: strip_def lstrip_def)

text \<open>
  The first part up to a separator that is no whitespace, stripped, is the same whether
  the text was stripped before or not.
\<close>

lemma strip_takeWhile_strip:
  assumes sep: "\<not> isspace sep"
  shows "strip (takeWhile (\<lambda>c. c \<noteq> sep) (strip s)) = strip (takeWhile (\<lambda>c. c \<noteq> sep) s)"
proof -
  obtain a b where s: "s = a @ strip s @ b" and a: "\<forall>x\<in>set a. isspace x"
    and b: "\<forall>x\<in>set b. isspace x"
    using strip_decompose by blast
  let ?m = "strip s" and ?Q = "\<lambda>c. c \<noteq> sep"
  from a sep have aQ: "\<forall>x\<in>set a. ?Q x" by auto
  from b sep have bQ: "\<forall>x\<in>set b. ?Q x" by auto
  show ?thesis
  proof (cases "sep \<in> set ?m")
    case True
    then have "takeWhile ?Q (?m @ b) = takeWhile ?Q ?m" by (simp add: takeWhile_append1 [of sep])
    with aQ have "takeWhile ?Q (a @ ?m @ b) = a @ takeWhile ?Q ?m"
      by (simp add: takeWhile_append2)
    with s have "takeWhile ?Q s = a @ takeWhile ?Q ?m" by simp
    with a show ?thesis by (simp add: strip_append_left)
  next
    case False
    then have m: "takeWhile ?Q ?m = ?m" by (auto intro: takeWhile_eq_all_conv [THEN iffD2])
    from False aQ bQ have "\<forall>x\<in>set (a @ ?m @ b). ?Q x" by auto
    with s have "\<forall>x\<in>set s. ?Q x" by simp
    then have t: "takeWhile ?Q s = s" by (auto intro: takeWhile_eq_all_conv [THEN iffD2])
    show ?thesis unfolding m t by (rule strip_idem)
  qed
qed

lemma split_scan_zero: "split_scan sep (Some 0) cur s = [rev cur @ s]"
  by (induction s arbitrary: cur) auto

lemma split_scan_one:
  "split_scan sep (Some 1) cur s =
     (if sep \<in> set s
      then [rev cur @ takeWhile (\<lambda>c. c \<noteq> sep) s, tl (dropWhile (\<lambda>c. c \<noteq> sep) s)]
      else [rev cur @ s])"
  by (induction s arbitrary: cur) (auto simp: split_scan_zero)

lemma split_scan_ne: "split_scan sep m cur s \<noteq> []"
  by (induction s arbitrary: cur m) auto

lemma split_scan_hd:
  "hd (split_scan sep None cur s) = rev cur @ takeWhile (\<lambda>c. c \<noteq> sep) s"
  by (induction s arbitrary: cur) auto

section \<open>Facts about frames and the cleaning steps\<close>

lemma and_then_Inr [simp]: "and_then (Inr v) f = f v"
  by (simp add: and_then_def)

lemma and_then_Inl [simp]: "and_then (Inl e) f = Inl e"
  by (simp add: and_then_def)

lemma and_then_eq_Inr: "and_then x f = Inr y \<longleftrightarrow> (\<exists>v. x = Inr v \<and> f v = Inr y)"
  by (cases x) simp_all

lemma getitem_eq_Inr: "getitem df n = Inr c \<longleftrightarrow> map_of df n = Some c"
  by (simp add: getitem_def split: option.splits)

lemma map_of_setitem: "map_of (setitem df k c) = (map_of df)(k \<mapsto> c)"
  by (simp add: setitem_def AList.update_conv')

lemma names_setitem:
  "map fst (setitem df k c) = (if k \<in> set (map fst df) then map fst df else map fst df @ [k])"
  by (simp add: setitem_def AList.update_keys)

lemma names_setitem_present: "map_of df k = Some c' \<Longrightarrow> map fst (setitem df k c) = map fst df"
  by (auto simp: names_setitem dest: map_of_SomeD intro: rev_image_eqI)

lemma distinct_setitem: "distinct (map fst df) \<Longrightarrow> distinct (map fst (setitem df k c))"
  by (simp add: setitem_def AList.distinct_update)

lemma str_strip_idem: "str_strip (str_strip xs) = str_strip xs"
  by (simp add: str_strip_def strip_idem option.map_comp comp_def)

lemma strip_column_idem: "strip_column (strip_column c) = strip_column c"
  by (cases c) (simp_all add: strip_column_def str_strip_idem)

lemma strip_loop_result:
  assumes "\<forall>n\<in>set ns. \<exists>xs. map_of df n = Some (Object xs)"
  shows "\<exists>df'. strip_loop ns df = Inr df' \<and> map fst df' = map fst df
           \<and> map_of df' = (\<lambda>n. if n \<in> set ns then map_option strip_column (map_of df n)
                                else map_of df n)"
  using assms
proof (induction ns arbitrary: df)
  case Nil
  then show ?case by simp
next
  case (Cons col cols)
  then obtain xs where xs: "map_of df col = Some (Object xs)" by auto
  let ?df1 = "setitem df col (Object (str_strip xs))"
  from Cons.prems have "\<forall>n\<in>set cols. \<exists>ys. map_of ?df1 n = Some (Object ys)"
    by (auto simp: map_of_setitem)
  from Cons.IH [OF this] obtain df' where r: "strip_loop cols ?df1 = Inr df'"
    and n: "map fst df' = map fst ?df1"
    and m: "map_of df' = (\<lambda>n. if n \<in> set cols then map_option strip_column (map_of ?df1 n)
                                else map_of ?df1 n)"
    by blast
  from xs have 1: "strip_loop (col # cols) df = Inr df'"
    by (simp add: getitem_def str_accessor_def r)
  from xs n have 2: "map fst df' = map fst df" by (simp add: names_setitem_present)
  have 3: "map_of df' = (\<lambda>n. if n \<in> set (col # cols) then map_option strip_column (map_of df n)
                                else map_of df n)"
    by (rule ext) (auto simp: m map_of_setitem xs strip_column_def str_strip_idem)
  from 1 2 3 show ?case by blast
qed

lemma str_cols_iff:
  assumes "distinct (map fst df)"
  shows "n \<in> set (str_cols df) \<longleftrightarrow> (\<exists>xs. map_of df n = Some (Object xs))"
proof
  assume "n \<in> set (str_cols df)"
  then obtain c where "(n, c) \<in> set df" "is_object c" by (auto simp: str_cols_def)
  with assms show "\<exists>xs. map_of df n = Some (Object xs)"
    by (cases c) auto
next
  assume "\<exists>xs. map_of df n = Some (Object xs)"
  then obtain xs where "map_of df n = Some (Object xs)" ..
  then have "(n, Object xs) \<in> set df" by (rule map_of_SomeD)
  then show "n \<in> set (str_cols df)" by (force simp: str_cols_def)
qed

lemma strip_whitespace_result:
  assumes d: "distinct (map fst df)"
  shows "\<exists>df'. strip_whitespace df = Inr df' \<and> map fst df' = map fst df
           \<and> map_of df' = (\<lambda>n. map_option strip_column (map_of df n))"
proof -
  have "\<forall>n\<in>set (str_cols df). \<exists>xs. map_of df n = Some (Object xs)"
    using str_cols_iff [OF d] by blast
  from strip_loop_result [OF this] obtain df' where r: "strip_loop (str_cols df) df = Inr df'"
    and n: "map fst df' = map fst df"
    and m: "map_of df' = (\<lambda>n. if n \<in> set (str_cols df) then map_option strip_column (map_of df n)
                                else map_of df n)"
    by blast
  have "map_of df' = (\<lambda>n. map_option strip_column (map_of df n))"
  proof (rule ext)
    fix n
    show "map_of df' n = map_option strip_column (map_of df n)"
    proof (cases "n \<in> set (str_cols df)")
      case True
      then show ?thesis by (simp add: m)
    next
      case False
      with str_cols_iff [OF d, of n] have "\<forall>xs. map_of df n \<noteq> Some (Object xs)" by simp
      then have "map_option strip_column (map_of df n) = map_of df n"
        by (cases "map_of df n") (auto simp: strip_column_def split: column.splits)
      with False show ?thesis by (simp add: m)
    qed
  qed
  with r n show ?thesis by (auto simp: strip_whitespace_def)
qed

lemma fold_max_less: "j < fold max ns (a::nat) \<longleftrightarrow> j < a \<or> (\<exists>n\<in>set ns. j < n)"
  by (induction ns arbitrary: a) auto

lemma py_split_one:
  "py_split sep (Some 1) s =
     (if sep \<in> set s
      then [takeWhile (\<lambda>c. c \<noteq> sep) s, tl (dropWhile (\<lambda>c. c \<noteq> sep) s)]
      else [s])"
  unfolding py_split_def split_scan_one by simp

lemma py_split_Suc0:
  "py_split sep (Some (Suc 0)) s =
     (if sep \<in> set s
      then [takeWhile (\<lambda>c. c \<noteq> sep) s, tl (dropWhile (\<lambda>c. c \<noteq> sep) s)]
      else [s])"
  using py_split_one [of sep s] by simp

lemma expand_width0:
  "0 < fold max (map (\<lambda>p. case p of None \<Rightarrow> 1 | Some ps \<Rightarrow> length ps)
                  (map (map_option (py_split sep (Some 1))) xs)) 0 \<longleftrightarrow> xs \<noteq> []"
proof -
  have "\<And>x. 0 < (case map_option (py_split sep (Some 1)) x of None \<Rightarrow> 1 | Some ps \<Rightarrow> length ps)"
    by (simp add: py_split_Suc0 split: option.splits)
  then show ?thesis
    by (cases xs) (auto simp: fold_max_less)
qed

lemma expand_width1:
  "1 < fold max (map (\<lambda>p. case p of None \<Rightarrow> 1 | Some ps \<Rightarrow> length ps)
                  (map (map_option (py_split sep (Some 1))) xs)) 0
   \<longleftrightarrow> (\<exists>s. Some s \<in> set xs \<and> sep \<in> set s)"
  by (auto simp: fold_max_less py_split_Suc0 split: option.splits if_splits)

lemma expand_getitem_map:
  "expand_getitem (map F [0..<w]) j = (if j < w then Inr (F j) else Inl KeyError)"
  by (simp add: expand_getitem_def)

lemma expand_col0:
  "expand_getitem (str_split_expand sep (Some 1) xs) 0 =
     (if xs = [] then Inl KeyError
      else Inr (map (map_option (takeWhile (\<lambda>c. c \<noteq> sep))) xs))"
proof -
  let ?w = "fold max (map (\<lambda>p. case p of None \<Rightarrow> 1 | Some ps \<Rightarrow> length ps)
                  (map (map_option (py_split sep (Some 1))) xs)) 0"
  let ?F = "\<lambda>j. map (\<lambda>p. case p of None \<Rightarrow> None
                   | Some ps \<Rightarrow> if j < length ps then Some (ps ! j) else None)
               (map (map_option (py_split sep (Some 1))) xs)"
  have e: "expand_getitem (str_split_expand sep (Some 1) xs) 0 =
        (if 0 < ?w then Inr (?F 0) else Inl KeyError)"
    unfolding str_split_expand_def Let_def by (rule expand_getitem_map)
  have m: "?F 0 = map (map_option (takeWhile (\<lambda>c. c \<noteq> sep))) xs"
    by (auto simp: py_split_Suc0 split: option.splits
          intro: takeWhile_eq_all_conv [THEN iffD2, symmetric])
  show ?thesis
  proof (cases "xs = []")
    case True
    then show ?thesis by (simp add: expand_getitem_def str_split_expand_def)
  next
    case False
    then have "0 < ?w" using expand_width0 [of sep xs] by blast
    with False show ?thesis by (simp only: e m if_False if_True)
  qed
qed

lemma expand_col1:
  "expand_getitem (str_split_expand sep (Some 1) xs) 1 =
     (if \<exists>s. Some s \<in> set xs \<and> sep \<in> set s
      then Inr (map (\<lambda>x. case x of None \<Rightarrow> None
                        | Some s \<Rightarrow> if sep \<in> set s
                                    then Some (tl (dropWhile (\<lambda>c. c \<noteq> sep) s)) else None) xs)
      else Inl KeyError)"
proof -
  let ?w = "fold max (map (\<lambda>p. case p of None \<Rightarrow> 1 | Some ps \<Rightarrow> length ps)
                  (map (map_option (py_split sep (Some 1))) xs)) 0"
  let ?F = "\<lambda>j. map (\<lambda>p. case p of None \<Rightarrow> None
                   | Some ps \<Rightarrow> if j < length ps then Some (ps ! j) else None)
               (map (map_option (py_split sep (Some 1))) xs)"
  have e: "expand_getitem (str_split_expand sep (Some 1) xs) 1 =
        (if 1 < ?w then Inr (?F 1) else Inl KeyError)"
    unfolding str_split_expand_def Let_def by (rule expand_getitem_map)
  have m: "?F 1 = map (\<lambda>x. case x of None \<Rightarrow> None
                        | Some s \<Rightarrow> if sep \<in> set s
                                    then Some (tl (dropWhile (\<lambda>c. c \<noteq> sep) s)) else None) xs"
    by (auto simp: py_split_Suc0 split: option.splits)
  show ?thesis by (simp only: e m expand_width1)
qed

lemma dt_year_to_datetime:
  "dt_year L (to_datetime L c) =
     Inr (Numeric (map (map_option (\<lambda>d. Finite (real_of_int (year_of L d)))) (datetime_values L c)))"
  by (simp add: dt_year_def to_datetime_def)

lemma parse_date_added_eq:
  "parse_date_added L df =
     (case map_of df ''date_added'' of
        None \<Rightarrow> Inl KeyError
      | Some c \<Rightarrow>
          Inr (setitem (setitem df ''date_added'' (to_datetime L c)) ''year_added''
                 (Numeric (map (map_option (\<lambda>d. Finite (real_of_int (year_of L d))))
                             (datetime_values L c)))))"
  by (simp add: parse_date_added_def getitem_def map_of_setitem Let_def dt_year_to_datetime
      split: option.splits)

lemma split_duration_eq:
  "split_duration df =
     (case map_of df ''duration'' of
        None \<Rightarrow> Inl KeyError
      | Some (Object xs) \<Rightarrow>
          if \<exists>s. Some s \<in> set xs \<and> CHR '' '' \<in> set s
          then Inr (setitem
                 (setitem df ''duration_int''
                    (Numeric (to_numeric
                       (map (map_option (takeWhile (\<lambda>c. c \<noteq> CHR '' ''))) xs))))
                 ''duration_type''
                 (Object (map (\<lambda>x. case x of None \<Rightarrow> None
                                | Some s \<Rightarrow> if CHR '' '' \<in> set s
                                    then Some (tl (dropWhile (\<lambda>c. c \<noteq> CHR '' '') s))
                                    else None) xs)))
          else Inl KeyError
      | Some _ \<Rightarrow> Inl AttributeError)"
proof (cases "map_of df ''duration''")
  case None
  then show ?thesis by (simp add: split_duration_def getitem_def)
next
  case (Some c)
  show ?thesis
  proof (cases c)
    case (Object xs)
    show ?thesis
    proof (cases "xs = []")
      case True
      with Some Object show ?thesis
        by (simp add: split_duration_def getitem_def str_accessor_def Let_def expand_col0
            del: One_nat_def)
    next
      case False
      with Some Object show ?thesis
        by (simp add: split_duration_def getitem_def str_accessor_def Let_def expand_col0
            expand_col1 del: ex_simps One_nat_def)
    qed
  qed (simp_all add: Some split_duration_def getitem_def str_accessor_def)
qed

lemma get_first_country_Str:
  "get_first_country (Str x) = Inr (Some (strip (takeWhile (\<lambda>c. c \<noteq> CHR '','') x)))"
  using split_scan_ne [of "CHR '',''" None "[]" x] split_scan_hd [of "CHR '',''" "[]" x]
  by (cases "split_scan CHR '','' None [] x") (simp_all add: py_split_def)

lemma get_main_genre_eq: "get_main_genre = get_first_country"
proof
  fix x :: "'a cell"
  show "get_main_genre x = get_first_country x" by (cases x) simp_all
qed

lemma series_apply_Object:
  "series_apply get_first_country (cells (Object xs)) =
     Inr (map (map_option (\<lambda>s. strip (takeWhile (\<lambda>c. c \<noteq> CHR '','') s))) xs)"
  by (induction xs) (auto simp: get_first_country_Str simp del: get_first_country.simps(2) split: option.splits)

lemma series_apply_Inr:
  "series_apply f cs = Inr ys \<Longrightarrow> length ys = length cs \<and> (\<forall>i<length cs. f (cs ! i) = Inr (ys ! i))"
proof (induction cs arbitrary: ys)
  case Nil then show ?case by simp
next
  case (Cons c cs)
  then obtain y ys' where "f c = Inr y" "series_apply f cs = Inr ys'" "ys = y # ys'"
    by (auto simp: and_then_eq_Inr)
  with Cons.IH [of ys'] show ?case by (auto simp: nth_Cons split: nat.splits)
qed

lemma extract_country_eq:
  "extract_country df =
     (case map_of df ''country'' of
        None \<Rightarrow> Inl KeyError
      | Some c \<Rightarrow> and_then (series_apply get_first_country (cells c)) (\<lambda>ys.
            Inr (setitem df ''country_primary'' (Object ys))))"
  by (simp add: extract_country_def getitem_def split: option.splits)

lemma extract_genre_eq:
  "extract_genre df =
     (case map_of df ''listed_in'' of
        None \<Rightarrow> Inl KeyError
      | Some c \<Rightarrow> and_then (series_apply get_first_country (cells c)) (\<lambda>ys.
            Inr (setitem df ''main_genre'' (Object ys))))"
  by (simp add: extract_genre_def getitem_def get_main_genre_eq split: option.splits)

lemma frame_eqI:
  "distinct (map fst a) \<Longrightarrow> map fst a = map fst b \<Longrightarrow> map_of a = map_of b \<Longrightarrow> a = b"
proof (induction a arbitrary: b)
  case Nil
  then show ?case by simp
next
  case (Cons p a)
  then obtain q b' where b: "b = q # b'" by (cases b) auto
  obtain k v where p: "p = (k, v)" by (cases p)
  obtain k' w where q: "q = (k', w)" by (cases q)
  from Cons.prems b p q have k: "k' = k" and n: "map fst a = map fst b'" by auto
  have eq: "map_of ((k, v) # a) x = map_of ((k, w) # b') x" for x
    using Cons.prems(3) b p q k by (simp only:)
  from eq [of k] have v: "w = v" by simp
  from Cons.prems(1) p have ka: "k \<notin> set (map fst a)" and d: "distinct (map fst a)" by auto
  have "map_of a = map_of b'"
  proof (rule ext)
    fix x
    show "map_of a x = map_of b' x"
    proof (cases "x = k")
      case True
      from ka have "map_of a k = None" by (simp add: map_of_eq_None_iff)
      moreover from ka n have "map_of b' k = None" by (simp add: map_of_eq_None_iff)
      ultimately show ?thesis using True by simp
    next
      case False
      from eq [of x] False show ?thesis by simp
    qed
  qed
  from Cons.IH [OF d n this] b p q k v show ?case by simp
qed

lemma setitem_same: "map_of df k = Some c \<Longrightarrow> setitem df k c = df"
  by (simp add: setitem_def AList.update_triv)

lemma get_first_country_stripped:
  "get_first_country c = Inr y \<Longrightarrow> map_option strip y = y"
  by (cases c) (auto simp: get_first_country_Str strip_idem simp del: get_first_country.simps(2))

lemma series_apply_stripped:
  "series_apply get_first_country cs = Inr ys \<Longrightarrow> str_strip ys = ys"
proof (induction cs arbitrary: ys)
  case Nil then show ?case by (simp add: str_strip_def)
next
  case (Cons c cs)
  then obtain y ys' where y: "get_first_country c = Inr y" and r: "series_apply get_first_country cs = Inr ys'"
    and e: "ys = y # ys'"
    by (auto simp: and_then_eq_Inr)
  from Cons.IH [OF r] get_first_country_stripped [OF y] e show ?case
    by (simp add: str_strip_def)
qed

text \<open>What a successful cleaning leaves in the frame.\<close>

lemma data_cleaning_Inr:
  assumes ok: "data_cleaning L df = Inr df'" and d: "distinct (map fst df)"
  obtains c xs cc ys gc zs where
      "map_of df ''date_added'' = Some c"
    and "map_of df ''duration'' = Some (Object xs)"
    and "\<exists>s. Some s \<in> set (str_strip xs) \<and> CHR '' '' \<in> set s"
    and "map_of df ''country'' = Some cc"
    and "series_apply get_first_country (cells (strip_column cc)) = Inr ys"
    and "map_of df ''listed_in'' = Some gc"
    and "series_apply get_first_country (cells (strip_column gc)) = Inr zs"
    and "map_of df' =
        (\<lambda>n. map_option strip_column (map_of df n))
        (''date_added'' \<mapsto> to_datetime L (strip_column c),
         ''year_added'' \<mapsto> Numeric (map (map_option (\<lambda>d. Finite (real_of_int (year_of L d))))
                             (datetime_values L (strip_column c))),
         ''duration_int'' \<mapsto> Numeric (to_numeric
                       (map (map_option (takeWhile (\<lambda>c. c \<noteq> CHR '' ''))) (str_strip xs))),
         ''duration_type'' \<mapsto> Object (map (\<lambda>x. case x of None \<Rightarrow> None
                                | Some s \<Rightarrow> if CHR '' '' \<in> set s
                                    then Some (tl (dropWhile (\<lambda>c. c \<noteq> CHR '' '') s))
                                    else None) (str_strip xs)),
         ''country_primary'' \<mapsto> Object ys,
         ''main_genre'' \<mapsto> Object zs)"
    and "distinct (map fst df')"
    and "{''date_added'', ''year_added'', ''duration'', ''duration_int'', ''duration_type'',
        ''country'', ''country_primary'', ''listed_in'', ''main_genre''} \<subseteq> set (map fst df')"
proof -
  from strip_whitespace_result [OF d] obtain df1 where s1: "strip_whitespace df = Inr df1"
    and n1: "map fst df1 = map fst df"
    and m1: "map_of df1 = (\<lambda>n. map_option strip_column (map_of df n))"
    by blast
  from ok s1 obtain df2 df3 df4 where s2: "parse_date_added L df1 = Inr df2"
    and s3: "split_duration df2 = Inr df3" and s4: "extract_country df3 = Inr df4"
    and s5: "extract_genre df4 = Inr df'"
    by (auto simp: data_cleaning_def and_then_eq_Inr)
  from s2 obtain c1 where c1: "map_of df1 ''date_added'' = Some c1"
    and df2: "df2 = setitem (setitem df1 ''date_added'' (to_datetime L c1)) ''year_added''
                 (Numeric (map (map_option (\<lambda>d. Finite (real_of_int (year_of L d))))
                             (datetime_values L c1)))"
    by (auto simp: parse_date_added_eq split: option.splits)
  from c1 m1 obtain c where c: "map_of df ''date_added'' = Some c" and c1': "c1 = strip_column c"
    by auto
  have m2: "map_of df2 = (map_of df1)(''date_added'' \<mapsto> to_datetime L c1, ''year_added'' \<mapsto>
                 (Numeric (map (map_option (\<lambda>d. Finite (real_of_int (year_of L d))))
                             (datetime_values L c1))))"
    by (simp add: df2 map_of_setitem)
  from s3 obtain xs1 where x1: "map_of df2 ''duration'' = Some (Object xs1)"
    and sp: "\<exists>s. Some s \<in> set xs1 \<and> CHR '' '' \<in> set s"
    and df3: "df3 = setitem
                 (setitem df2 ''duration_int''
                    (Numeric (to_numeric
                       (map (map_option (takeWhile (\<lambda>c. c \<noteq> CHR '' ''))) xs1))))
                 ''duration_type''
                 (Object (map (\<lambda>x. case x of None \<Rightarrow> None
                                | Some s \<Rightarrow> if CHR '' '' \<in> set s
                                    then Some (tl (dropWhile (\<lambda>c. c \<noteq> CHR '' '') s))
                                    else None) xs1))"
    by (auto simp: split_duration_eq split: option.splits column.splits if_splits)
  from x1 have "map_of df1 ''duration'' = Some (Object xs1)" by (simp add: m2)
  with m1 obtain c0 where c0: "map_of df ''duration'' = Some c0" and "strip_column c0 = Object xs1"
    by auto
  then obtain xs where xs: "c0 = Object xs" and xs1: "xs1 = str_strip xs"
    by (cases c0) (auto simp: strip_column_def)
  have m3: "map_of df3 = (map_of df2)(''duration_int'' \<mapsto> 
                    (Numeric (to_numeric
                       (map (map_option (takeWhile (\<lambda>c. c \<noteq> CHR '' ''))) xs1))),
                 ''duration_type'' \<mapsto>
                 (Object (map (\<lambda>x. case x of None \<Rightarrow> None
                                | Some s \<Rightarrow> if CHR '' '' \<in> set s
                                    then Some (tl (dropWhile (\<lambda>c. c \<noteq> CHR '' '') s))
                                    else None) xs1)))"
    by (simp add: df3 map_of_setitem)
  from s4 obtain cc1 ys where cc1: "map_of df3 ''country'' = Some cc1"
    and ys: "series_apply get_first_country (cells cc1) = Inr ys"
    and df4: "df4 = setitem df3 ''country_primary'' (Object ys)"
    by (auto simp: extract_country_eq and_then_eq_Inr split: option.splits)
  from cc1 have "map_of df1 ''country'' = Some cc1" by (simp add: m3 m2)
  with m1 obtain cc where cc: "map_of df ''country'' = Some cc" and cc1': "cc1 = strip_column cc"
    by auto
  have m4: "map_of df4 = (map_of df3)(''country_primary'' \<mapsto> Object ys)"
    by (simp add: df4 map_of_setitem)
  from s5 obtain gc1 zs where gc1: "map_of df4 ''listed_in'' = Some gc1"
    and zs: "series_apply get_first_country (cells gc1) = Inr zs"
    and df5: "df' = setitem df4 ''main_genre'' (Object zs)"
    by (auto simp: extract_genre_eq and_then_eq_Inr split: option.splits)
  from gc1 have "map_of df1 ''listed_in'' = Some gc1" by (simp add: m4 m3 m2)
  with m1 obtain gc where gc: "map_of df ''listed_in'' = Some gc" and gc1': "gc1 = strip_column gc"
    by auto
  have m5: "map_of df' = (map_of df4)(''main_genre'' \<mapsto> Object zs)"
    by (simp add: df5 map_of_setitem)
  have dd: "distinct (map fst df')"
    using d n1 by (simp add: df5 df4 df3 df2 distinct_setitem)
  have "dom (map_of df') = set (map fst df')" by (simp add: dom_map_of_conv_image_fst)
  moreover have "{''date_added'', ''year_added'', ''duration'', ''duration_int'', ''duration_type'',
        ''country'', ''country_primary'', ''listed_in'', ''main_genre''} \<subseteq> dom (map_of df')"
    using c1 x1 cc1 gc1 by (auto simp: m5 m4 m3 m2)
  ultimately have names: "{''date_added'', ''year_added'', ''duration'', ''duration_int'', ''duration_type'',
        ''country'', ''country_primary'', ''listed_in'', ''main_genre''} \<subseteq> set (map fst df')"
    by simp
  have mm: "map_of df' =
        (\<lambda>n. map_option strip_column (map_of df n))
        (''date_added'' \<mapsto> to_datetime L (strip_column c),
         ''year_added'' \<mapsto> Numeric (map (map_option (\<lambda>d. Finite (real_of_int (year_of L d))))
                             (datetime_values L (strip_column c))),
         ''duration_int'' \<mapsto> Numeric (to_numeric
                       (map (map_option (takeWhile (\<lambda>c. c \<noteq> CHR '' ''))) (str_strip xs))),
         ''duration_type'' \<mapsto> Object (map (\<lambda>x. case x of None \<Rightarrow> None
                                | Some s \<Rightarrow> if CHR '' '' \<in> set s
                                    then Some (tl (dropWhile (\<lambda>c. c \<noteq> CHR '' '') s))
                                    else None) (str_strip xs)),
         ''country_primary'' \<mapsto> Object ys,
         ''main_genre'' \<mapsto> Object zs)"
    by (simp only: m5 m4 m3 m2 m1 c1' xs1)
  show ?thesis
    by (rule that [OF c c0 [unfolded xs] sp [unfolded xs1] cc ys [unfolded cc1'] gc
          zs [unfolded gc1'] mm dd names])
qed

lemma strip_column_fixed_cases:
  "strip_column (Numeric xs) = Numeric xs" "strip_column (Datetime ds) = Datetime ds"
  "strip_column (to_datetime L c) = to_datetime L c"
  "datetime_values L (to_datetime L c) = datetime_values L c"
  "to_datetime L (to_datetime L c) = to_datetime L c"
  by (simp_all add: strip_column_def to_datetime_def datetime_values_def)


section \<open>Facts about sampling and the rating stage\<close>

text \<open>
  With a seed the sample, and the run of the script, do not read numpy's global generator;
  without one the sample does depend on it.
\<close>

lemma seeded_sample_ignores_global:
  "df_subset N g1 df = df_subset N g2 df
   \<and> sample N g1 df n (Some seed) = sample N g2 df n (Some seed)
   \<and> script L N g1 df = script L N g2 df"
  by (simp add: script_def df_subset_def sample_def random_state_def)

lemma sample_unseeded_uses_global:
  "sample \<lparr>seeded = \<lambda>s. [], permutation = \<lambda>g n. g\<rparr> [0] [(''title'', Object [Some ''A'', Some ''B''])] 1 None
   \<noteq> sample \<lparr>seeded = \<lambda>s. [], permutation = \<lambda>g n. g\<rparr> [1] [(''title'', Object [Some ''A'', Some ''B''])] 1 None"
  by (simp add: sample_def random_state_def choice_def take_rows_def nrows_def col_len_def)

lemma cells_take_column:
  "\<forall>i\<in>set idx. i < col_len c \<Longrightarrow> cells (take_column idx c) = map (\<lambda>i. cells c ! i) idx"
  by (cases c) (simp_all add: col_len_def)

lemma col_len_take_column: "col_len (take_column idx c) = length idx"
  by (cases c) (simp_all add: col_len_def)

lemma map_of_boolean_index:
  "map_of (boolean_index df m) n = map_option (mask_column m) (map_of df n)"
  by (induction df) (auto simp: boolean_index_def)

lemma cells_mask_column:
  "cells (mask_column m c) = map fst (filter snd (zip (cells c) m))"
  by (cases c) (simp_all add: filter_map comp_def zip_map1 case_prod_unfold)

lemma notna_masked_1:
  "Null \<notin> set (map fst (filter snd (zip cs (mask_and a (map (\<lambda>x. x \<noteq> Null) cs)))))"
  by (auto simp: mask_and_def in_set_zip)

lemma notna_masked_2:
  "Null \<notin> set (map fst (filter snd (zip cs (mask_and (map (\<lambda>x. x \<noteq> Null) cs) b))))"
  by (auto simp: mask_and_def in_set_zip)

text \<open>The examples, run.\<close>

lemma example_rows_cleaned:
  "data_cleaning example_pandas (example_rows [Some ''90 min'', Some ''2 Seasons'', Some [], None])
     = Inr example_cleaned"
  by code_simp

lemma nrows_example_table: "nrows (example_table d) = 3000"
  by (simp add: example_table_def nrows_def col_len_def)

lemma not_isspace_comma: "\<not> isspace CHR '',''"
  by (simp add: isspace_def whitespace_def)


text \<open>When the cleaning completes, and when it cannot.\<close>

lemma data_cleaning_succeeds:
  assumes d: "distinct (map fst df)"
    and date: "map_of df ''date_added'' = Some c"
    and dur: "map_of df ''duration'' = Some (Object xs)"
    and sp: "\<exists>s. Some s \<in> set xs \<and> CHR '' '' \<in> set (strip s)"
    and country: "map_of df ''country'' = Some (Object cs)"
    and listed: "map_of df ''listed_in'' = Some (Object gs)"
  shows "\<exists>df'. data_cleaning L df = Inr df'"
proof -
  from strip_whitespace_result [OF d] obtain df1 where s1: "strip_whitespace df = Inr df1"
    and m1: "map_of df1 = (\<lambda>n. map_option strip_column (map_of df n))"
    by blast
  from sp have sp': "\<exists>s. Some s \<in> set (str_strip xs) \<and> CHR '' '' \<in> set s"
    by (force simp: str_strip_def)
  obtain df2 where s2: "parse_date_added L df1 = Inr df2"
    and m2: "map_of df2 ''duration'' = Some (Object (str_strip xs))"
       "map_of df2 ''country'' = Some (Object (str_strip cs))"
       "map_of df2 ''listed_in'' = Some (Object (str_strip gs))"
    by (simp add: parse_date_added_eq m1 date dur country listed map_of_setitem strip_column_def)
  obtain df3 where s3: "split_duration df2 = Inr df3"
    and m3: "map_of df3 ''country'' = Some (Object (str_strip cs))"
       "map_of df3 ''listed_in'' = Some (Object (str_strip gs))"
    using sp' by (simp add: split_duration_eq m2 map_of_setitem del: ex_simps)
  obtain df4 where s4: "extract_country df3 = Inr df4"
    and m4: "map_of df4 ''listed_in'' = Some (Object (str_strip gs))"
    by (simp add: extract_country_eq m3 series_apply_Object map_of_setitem del: cells.simps)
  obtain df5 where s5: "extract_genre df4 = Inr df5"
    by (simp add: extract_genre_eq m4 series_apply_Object del: cells.simps)
  show ?thesis by (simp add: data_cleaning_def s1 s2 s3 s4 s5)
qed

lemma data_cleaning_no_second_part:
  assumes d: "distinct (map fst df)"
    and date: "map_of df ''date_added'' = Some c"
    and dur: "map_of df ''duration'' = Some (Object xs)"
    and sp: "\<forall>s. Some s \<in> set xs \<longrightarrow> CHR '' '' \<notin> set (strip s)"
  shows "data_cleaning L df = Inl KeyError"
proof -
  from strip_whitespace_result [OF d] obtain df1 where s1: "strip_whitespace df = Inr df1"
    and m1: "map_of df1 = (\<lambda>n. map_option strip_column (map_of df n))"
    by blast
  have sp': "\<not> (\<exists>s. Some s \<in> set (str_strip xs) \<and> CHR '' '' \<in> set s)"
  proof
    assume "\<exists>s. Some s \<in> set (str_strip xs) \<and> CHR '' '' \<in> set s"
    then obtain s x where x: "x \<in> set xs" and e: "Some s = map_option strip x"
      and c: "CHR '' '' \<in> set s"
      by (auto simp: str_strip_def)
    from e obtain t where "x = Some t" "s = strip t" by (cases x) simp_all
    with x c sp show False by blast
  qed
  obtain df2 where s2: "parse_date_added L df1 = Inr df2"
    and m2: "map_of df2 ''duration'' = Some (Object (str_strip xs))"
    by (simp add: parse_date_added_eq m1 date dur map_of_setitem strip_column_def)
  have s3: "split_duration df2 = Inl KeyError"
    using sp' by (simp add: split_duration_eq m2 del: ex_simps not_ex)
  show ?thesis by (simp add: data_cleaning_def s1 s2 s3)
qed

lemma take_column_replicate:
  "\<forall>i\<in>set idx. i < n \<Longrightarrow> map (\<lambda>i. replicate n x ! i) idx = replicate (length idx) x"
  by (induction idx) simp_all

lemma df_subset_example_table:
  "df_subset example_numpy g (example_table d) =
     Inr [(''show_id'', Numeric (map (\<lambda>i. map (\<lambda>i. Some (Finite (real i))) [0..<3000] ! i) (rev [0..<3000]))),
          (''date_added'', Object (replicate 3000 (Some ''March 5, 2019''))),
          (''rating'', Object (replicate 3000 (Some ''TV-MA''))),
          (''duration'', Object (replicate 3000 (Some d))),
          (''country'', Object (replicate 3000 (Some ''United States, India''))),
          (''listed_in'', Object (replicate 3000 (Some '' Dramas '')))]"
proof -
  have i: "\<forall>i\<in>set (rev [0..<3000]). i < 3000" by simp
  have t: "take 3000 (rev [0..<3000]) = rev [0..<3000]" by simp
  have r: "map (\<lambda>i. replicate 3000 x ! i) (rev [0..<3000]) = replicate 3000 x" for x :: "string option"
    using take_column_replicate [OF i, of x] by simp
  have "df_subset example_numpy g (example_table d)
      = Inr (map (\<lambda>p. (fst p, take_column (rev [0..<3000]) (snd p))) (example_table d))"
    using i by (simp add: df_subset_def sample_def random_state_def choice_def take_rows_def
        example_numpy_def nrows_example_table t)
  also have "map (\<lambda>p. (fst p, take_column (rev [0..<3000]) (snd p))) (example_table d) =
        [(''show_id'', Numeric (map (\<lambda>i. map (\<lambda>i. Some (Finite (real i))) [0..<3000] ! i) (rev [0..<3000]))),
          (''date_added'', Object (replicate 3000 (Some ''March 5, 2019''))),
          (''rating'', Object (replicate 3000 (Some ''TV-MA''))),
          (''duration'', Object (replicate 3000 (Some d))),
          (''country'', Object (replicate 3000 (Some ''United States, India''))),
          (''listed_in'', Object (replicate 3000 (Some '' Dramas '')))]"
    by (simp add: example_table_def r)
  finally show ?thesis .
qed

text \<open>
  Missing stays missing: in a cleaning that completes, a missing \<^verbatim>\<open>date_added\<close>, or one
  pandas reads no date from, gives a missing \<^verbatim>\<open>year_added\<close>, and a missing \<^verbatim>\<open>duration\<close>,
  \<^verbatim>\<open>country\<close> or \<^verbatim>\<open>listed_in\<close> gives missing derived values.
\<close>

lemma data_cleaning_null_safe:
  assumes ok: "data_cleaning L df = Inr df'" and d: "distinct (map fst df)"
    and date: "map_of df ''date_added'' = Some (Object as)"
    and duration: "map_of df ''duration'' = Some (Object ds)"
    and country: "map_of df ''country'' = Some (Object cs)"
    and listed_in: "map_of df ''listed_in'' = Some (Object gs)"
  shows "\<exists>ya di dt cp mg.
      map_of df' ''year_added'' = Some (Numeric ya) \<and> length ya = length as
    \<and> map_of df' ''duration_int'' = Some (Numeric di) \<and> length di = length ds
    \<and> map_of df' ''duration_type'' = Some (Object dt) \<and> length dt = length ds
    \<and> map_of df' ''country_primary'' = Some (Object cp) \<and> length cp = length cs
    \<and> map_of df' ''main_genre'' = Some (Object mg) \<and> length mg = length gs
    \<and> (\<forall>i<length as. as ! i = None \<longrightarrow> ya ! i = None)
    \<and> (\<forall>i<length as. \<forall>s. as ! i = Some s \<and> date_parse L (str_strip as) (strip s) = None
            \<longrightarrow> ya ! i = None)
    \<and> (\<forall>i<length ds. ds ! i = None \<longrightarrow> di ! i = None \<and> dt ! i = None)
    \<and> (\<forall>i<length cs. cs ! i = None \<longrightarrow> cp ! i = None)
    \<and> (\<forall>i<length gs. gs ! i = None \<longrightarrow> mg ! i = None)"
proof -
  obtain c xs cc ys gc zs where
      c: "map_of df ''date_added'' = Some c"
    and xs: "map_of df ''duration'' = Some (Object xs)"
    and cc: "map_of df ''country'' = Some cc"
    and ys: "series_apply get_first_country (cells (strip_column cc)) = Inr ys"
    and gc: "map_of df ''listed_in'' = Some gc"
    and zs: "series_apply get_first_country (cells (strip_column gc)) = Inr zs"
    and m: "map_of df' =
        (\<lambda>n. map_option strip_column (map_of df n))
        (''date_added'' \<mapsto> to_datetime L (strip_column c),
         ''year_added'' \<mapsto> Numeric (map (map_option (\<lambda>d. Finite (real_of_int (year_of L d))))
                             (datetime_values L (strip_column c))),
         ''duration_int'' \<mapsto> Numeric (to_numeric
                       (map (map_option (takeWhile (\<lambda>c. c \<noteq> CHR '' ''))) (str_strip xs))),
         ''duration_type'' \<mapsto> Object (map (\<lambda>x. case x of None \<Rightarrow> None
                                | Some s \<Rightarrow> if CHR '' '' \<in> set s
                                    then Some (tl (dropWhile (\<lambda>c. c \<noteq> CHR '' '') s))
                                    else None) (str_strip xs)),
         ''country_primary'' \<mapsto> Object ys,
         ''main_genre'' \<mapsto> Object zs)"
    by (rule data_cleaning_Inr [OF ok d])
  from c date have ce: "c = Object as" by simp
  from xs duration have xe: "xs = ds" by simp
  from cc country have cce: "cc = Object cs" by simp
  from gc listed_in have gce: "gc = Object gs" by simp
  from ys have ys': "ys = map (map_option (\<lambda>s. strip (takeWhile (\<lambda>c. c \<noteq> CHR '','') s))) (str_strip cs)"
    unfolding cce by (simp add: strip_column_def series_apply_Object del: cells.simps)
  from zs have zs': "zs = map (map_option (\<lambda>s. strip (takeWhile (\<lambda>c. c \<noteq> CHR '','') s))) (str_strip gs)"
    unfolding gce by (simp add: strip_column_def series_apply_Object del: cells.simps)
  show ?thesis
    unfolding m ce xe ys' zs'
    by (auto simp: strip_column_def datetime_values_def to_numeric_def str_strip_def)
qed

text \<open>
  The cleaning changes the frame at its address and no other; who holds that address sees
  the cleaned frame.
\<close>

lemma clean_at_other: "clean_at L a h = Inr h' \<Longrightarrow> b \<noteq> a \<Longrightarrow> h' ! b = h ! b"
  by (auto simp: clean_at_def and_then_eq_Inr)

lemma clean_at_same:
  "clean_at L a h = Inr h' \<Longrightarrow> a < length h \<Longrightarrow> data_cleaning L (h ! a) = Inr (h' ! a)"
  by (auto simp: clean_at_def and_then_eq_Inr)

section \<open>Properties\<close>

subsection \<open>Rating groups\<close>

text \<open>
  C1. The rating grouping is total and is the fixed lookup: whatever the rating (a
  missing value and a string outside the known codes included), the group is one of
  "Mature", "Teen" and "Family/Kids"; "TV-MA", "R" and "NC-17" give "Mature", "TV-14"
  and "PG-13" give "Teen", and every other value, the missing one included, gives
  "Family/Kids".
\<close>

theorem simplify_rating_total_lookup:
  "simplify_rating (r :: 'd cell) \<in> {''Mature'', ''Teen'', ''Family/Kids''}
   \<and> simplify_rating (Str ''TV-MA'' :: 'd cell) = ''Mature''
   \<and> simplify_rating (Str ''R'' :: 'd cell) = ''Mature''
   \<and> simplify_rating (Str ''NC-17'' :: 'd cell) = ''Mature''
   \<and> simplify_rating (Str ''TV-14'' :: 'd cell) = ''Teen''
   \<and> simplify_rating (Str ''PG-13'' :: 'd cell) = ''Teen''
   \<and> simplify_rating (Null :: 'd cell) = ''Family/Kids''
   \<and> (r \<notin> {Str ''TV-MA'', Str ''R'', Str ''NC-17'', Str ''TV-14'', Str ''PG-13''}
        \<longrightarrow> simplify_rating r = ''Family/Kids'')"
  by (simp add: simplify_rating_def)

theorem simplify_rating_total_lookup_witness:
  "simplify_rating (Str ''TV-Y'' :: unit cell) \<in> {''Mature'', ''Teen'', ''Family/Kids''}
   \<and> (Str ''TV-Y'' :: unit cell)
        \<notin> {Str ''TV-MA'', Str ''R'', Str ''NC-17'', Str ''TV-14'', Str ''PG-13''}
   \<and> simplify_rating (Str ''TV-Y'' :: unit cell) = ''Family/Kids''"
  using simplify_rating_total_lookup [of "Str ''TV-Y'' :: unit cell"]
  by (simp add: simplify_rating_def)

subsection \<open>Cleaning\<close>

text \<open>
  C9. The cleaning is idempotent on its own output: run a second time on an already
  cleaned table, where the derived columns \<^verbatim>\<open>year_added\<close>, \<^verbatim>\<open>duration_int\<close>,
  \<^verbatim>\<open>duration_type\<close>, \<^verbatim>\<open>country_primary\<close> and \<^verbatim>\<open>main_genre\<close> exist, it completes and
  leaves every column, the derived ones included, as it was. The column names of the table
  loaded at first are distinct, as \<^verbatim>\<open>read_csv\<close> makes them.
\<close>

theorem data_cleaning_idempotent:
  assumes ok: "data_cleaning L df = Inr df'" and d: "distinct (map fst df)"
  shows "data_cleaning L df' = Inr df'"
proof -
  let ?sp = "\<lambda>x. case x of None \<Rightarrow> None
                | Some s \<Rightarrow> if CHR '' '' \<in> set s
                    then Some (tl (dropWhile (\<lambda>c. c \<noteq> CHR '' '') s)) else None"
  obtain c xs cc ys gc zs where
      c: "map_of df ''date_added'' = Some c"
    and xs: "map_of df ''duration'' = Some (Object xs)"
    and sp: "\<exists>s. Some s \<in> set (str_strip xs) \<and> CHR '' '' \<in> set s"
    and cc: "map_of df ''country'' = Some cc"
    and ys: "series_apply get_first_country (cells (strip_column cc)) = Inr ys"
    and gc: "map_of df ''listed_in'' = Some gc"
    and zs: "series_apply get_first_country (cells (strip_column gc)) = Inr zs"
    and m: "map_of df' =
        (\<lambda>n. map_option strip_column (map_of df n))
        (''date_added'' \<mapsto> to_datetime L (strip_column c),
         ''year_added'' \<mapsto> Numeric (map (map_option (\<lambda>d. Finite (real_of_int (year_of L d))))
                             (datetime_values L (strip_column c))),
         ''duration_int'' \<mapsto> Numeric (to_numeric
                       (map (map_option (takeWhile (\<lambda>c. c \<noteq> CHR '' ''))) (str_strip xs))),
         ''duration_type'' \<mapsto> Object (map ?sp (str_strip xs)),
         ''country_primary'' \<mapsto> Object ys,
         ''main_genre'' \<mapsto> Object zs)"
    and dd: "distinct (map fst df')"
    by (rule data_cleaning_Inr [OF ok d])
  let ?D = "to_datetime L (strip_column c)"
  let ?Y = "Numeric (map (map_option (\<lambda>d. Finite (real_of_int (year_of L d))))
                             (datetime_values L (strip_column c)))"
  let ?DI = "Numeric (to_numeric
                       (map (map_option (takeWhile (\<lambda>c. c \<noteq> CHR '' ''))) (str_strip xs)))"
  let ?DT = "Object (map ?sp (str_strip xs))"
  have l_date: "map_of df' ''date_added'' = Some ?D" by (simp add: m)
  have l_year: "map_of df' ''year_added'' = Some ?Y" by (simp add: m)
  have l_dur: "map_of df' ''duration'' = Some (Object (str_strip xs))"
    by (simp add: m xs strip_column_def)
  have l_di: "map_of df' ''duration_int'' = Some ?DI" by (simp add: m)
  have l_dt: "map_of df' ''duration_type'' = Some ?DT" by (simp add: m)
  have l_c: "map_of df' ''country'' = Some (strip_column cc)" by (simp add: m cc)
  have l_cp: "map_of df' ''country_primary'' = Some (Object ys)" by (simp add: m)
  have l_g: "map_of df' ''listed_in'' = Some (strip_column gc)" by (simp add: m gc)
  have l_mg: "map_of df' ''main_genre'' = Some (Object zs)" by (simp add: m)
  have fixed: "map_option strip_column (map_of df' n) = map_of df' n" if "n \<noteq> ''duration_type''" for n
    using that series_apply_stripped [OF ys] series_apply_stripped [OF zs]
    by (cases "map_of df n")
       (simp_all add: m strip_column_fixed_cases strip_column_idem, simp_all add: strip_column_def)
  from strip_whitespace_result [OF dd] obtain e where s1: "strip_whitespace df' = Inr e"
    and n1: "map fst e = map fst df'"
    and m1: "map_of e = (\<lambda>n. map_option strip_column (map_of df' n))"
    by blast
  have e_date: "map_of e ''date_added'' = Some ?D" by (simp add: m1 l_date strip_column_fixed_cases)
  have e_year: "map_of e ''year_added'' = Some ?Y" by (simp add: m1 l_year strip_column_fixed_cases)
  have s2: "parse_date_added L e = Inr e"
    by (simp add: parse_date_added_eq e_date strip_column_fixed_cases setitem_same e_year)
  have e_dur: "map_of e ''duration'' = Some (Object (str_strip xs))"
    by (simp add: m1 l_dur strip_column_def str_strip_idem)
  have e_di: "map_of e ''duration_int'' = Some ?DI" by (simp add: m1 l_di strip_column_fixed_cases)
  have e_dt: "\<exists>c. map_of e ''duration_type'' = Some c" by (simp add: m1 l_dt)
  have s3a: "split_duration e = Inr (setitem e ''duration_type'' ?DT)"
    using sp by (simp add: split_duration_eq e_dur setitem_same e_di del: ex_simps)
  have "setitem e ''duration_type'' ?DT = df'"
  proof (rule frame_eqI [symmetric])
    show "distinct (map fst df')" by (rule dd)
    from e_dt show "map fst df' = map fst (setitem e ''duration_type'' ?DT)"
      by (auto simp: names_setitem_present n1)
    show "map_of df' = map_of (setitem e ''duration_type'' ?DT)"
    proof (rule ext)
      fix n
      show "map_of df' n = map_of (setitem e ''duration_type'' ?DT) n"
        using fixed [of n] by (cases "n = ''duration_type''") (simp_all add: map_of_setitem m1 l_dt)
    qed
  qed
  with s3a have s3: "split_duration e = Inr df'" by simp
  have s4: "extract_country df' = Inr df'"
    by (simp add: extract_country_eq l_c ys setitem_same l_cp)
  have s5: "extract_genre df' = Inr df'"
    by (simp add: extract_genre_eq l_g zs setitem_same l_mg)
  show ?thesis by (simp add: data_cleaning_def s1 s2 s3 s4 s5)
qed

theorem data_cleaning_idempotent_witness:
  "data_cleaning example_pandas (example_rows [Some ''90 min'', Some ''2 Seasons'', Some [], None])
     = Inr example_cleaned
   \<and> distinct (map fst (example_rows [Some ''90 min'', Some ''2 Seasons'', Some [], None]))
   \<and> data_cleaning example_pandas example_cleaned = Inr example_cleaned"
proof -
  have d: "distinct (map fst (example_rows [Some ''90 min'', Some ''2 Seasons'', Some [], None]))"
    by (simp add: example_rows_def)
  from data_cleaning_idempotent [OF example_rows_cleaned d] example_rows_cleaned d
  show ?thesis by simp
qed




text \<open>
  C3. For every row with a \<^verbatim>\<open>country\<close> (and likewise \<^verbatim>\<open>listed_in\<close>), \<^verbatim>\<open>country_primary\<close>
  (\<^verbatim>\<open>main_genre\<close>) of the cleaned table is the first comma-separated part of the value as
  it was loaded, with leading and trailing whitespace removed, and a missing value stays
  missing; "United States, India" gives "United States", "Dramas, International Movies"
  gives "Dramas", and a single part or a padded one such as " Dramas " is stripped to
  "Dramas".
\<close>

theorem first_token_extraction:
  assumes ok: "data_cleaning L df = Inr df'" and d: "distinct (map fst df)"
    and country: "map_of df ''country'' = Some (Object cs)"
    and listed_in: "map_of df ''listed_in'' = Some (Object gs)"
  shows "map_of df' ''country_primary''
           = Some (Object (map (map_option (\<lambda>x. strip (takeWhile (\<lambda>c. c \<noteq> CHR '','') x))) cs))
       \<and> map_of df' ''main_genre''
           = Some (Object (map (map_option (\<lambda>x. strip (takeWhile (\<lambda>c. c \<noteq> CHR '','') x))) gs))
       \<and> get_first_country (Str ''United States, India'' :: 'd cell) = Inr (Some ''United States'')
       \<and> get_main_genre (Str ''Dramas, International Movies'' :: 'd cell) = Inr (Some ''Dramas'')
       \<and> get_main_genre (Str '' Dramas '' :: 'd cell) = Inr (Some ''Dramas'')
       \<and> get_first_country (Str ''India'' :: 'd cell) = Inr (Some ''India'')"
proof -
  obtain c xs cc ys gc zs where
      cc: "map_of df ''country'' = Some cc"
    and ys: "series_apply get_first_country (cells (strip_column cc)) = Inr ys"
    and gc: "map_of df ''listed_in'' = Some gc"
    and zs: "series_apply get_first_country (cells (strip_column gc)) = Inr zs"
    and m: "map_of df' =
        (\<lambda>n. map_option strip_column (map_of df n))
        (''date_added'' \<mapsto> to_datetime L (strip_column c),
         ''year_added'' \<mapsto> Numeric (map (map_option (\<lambda>d. Finite (real_of_int (year_of L d))))
                             (datetime_values L (strip_column c))),
         ''duration_int'' \<mapsto> Numeric (to_numeric
                       (map (map_option (takeWhile (\<lambda>c. c \<noteq> CHR '' ''))) (str_strip xs))),
         ''duration_type'' \<mapsto> Object (map (\<lambda>x. case x of None \<Rightarrow> None
                                | Some s \<Rightarrow> if CHR '' '' \<in> set s
                                    then Some (tl (dropWhile (\<lambda>c. c \<noteq> CHR '' '') s))
                                    else None) (str_strip xs)),
         ''country_primary'' \<mapsto> Object ys,
         ''main_genre'' \<mapsto> Object zs)"
    by (rule data_cleaning_Inr [OF ok d])
  have tok: "map (map_option (\<lambda>s. strip (takeWhile (\<lambda>c. c \<noteq> CHR '','') s))) (str_strip ts)
           = map (map_option (\<lambda>x. strip (takeWhile (\<lambda>c. c \<noteq> CHR '','') x))) ts" for ts
    by (simp add: str_strip_def option.map_comp comp_def strip_takeWhile_strip [OF not_isspace_comma])
  from cc country have ce: "cc = Object cs" by simp
  from gc listed_in have ge: "gc = Object gs" by simp
  from ys have "ys = map (map_option (\<lambda>x. strip (takeWhile (\<lambda>c. c \<noteq> CHR '','') x))) cs"
    unfolding ce by (simp add: strip_column_def series_apply_Object tok del: cells.simps)
  moreover from zs
  have "zs = map (map_option (\<lambda>x. strip (takeWhile (\<lambda>c. c \<noteq> CHR '','') x))) gs"
    unfolding ge by (simp add: strip_column_def series_apply_Object tok del: cells.simps)
  moreover have "get_first_country (Str ''United States, India'' :: 'd cell) = Inr (Some ''United States'')"
    by (simp add: py_split_def strip_def lstrip_def rstrip_def isspace_def whitespace_def)
  moreover have "get_main_genre (Str ''Dramas, International Movies'' :: 'd cell) = Inr (Some ''Dramas'')"
    by (simp add: py_split_def strip_def lstrip_def rstrip_def isspace_def whitespace_def)
  moreover have "get_main_genre (Str '' Dramas '' :: 'd cell) = Inr (Some ''Dramas'')"
    by (simp add: py_split_def strip_def lstrip_def rstrip_def isspace_def whitespace_def)
  moreover have "get_first_country (Str ''India'' :: 'd cell) = Inr (Some ''India'')"
    by (simp add: py_split_def strip_def lstrip_def rstrip_def isspace_def whitespace_def)
  ultimately show ?thesis by (simp add: m)
qed

theorem first_token_extraction_witness:
  "data_cleaning example_pandas (example_rows [Some ''90 min'', Some ''2 Seasons'', Some [], None])
     = Inr example_cleaned
   \<and> distinct (map fst (example_rows [Some ''90 min'', Some ''2 Seasons'', Some [], None]))
   \<and> map_of (example_rows [Some ''90 min'', Some ''2 Seasons'', Some [], None]) ''country''
       = Some (Object [Some ''United States, India'', None, Some ''India'', Some '' France , Spain''])
   \<and> map_of (example_rows [Some ''90 min'', Some ''2 Seasons'', Some [], None]) ''listed_in''
       = Some (Object [Some ''Dramas, International Movies'', Some '' Dramas '', None, Some ''Comedies''])
   \<and> map_of example_cleaned ''country_primary''
       = Some (Object [Some ''United States'', None, Some ''India'', Some ''France''])
   \<and> map_of example_cleaned ''main_genre''
       = Some (Object [Some ''Dramas'', Some ''Dramas'', None, Some ''Comedies''])"
proof -
  let ?df = "example_rows [Some ''90 min'', Some ''2 Seasons'', Some [], None]"
  have d: "distinct (map fst ?df)" by (simp add: example_rows_def)
  have c: "map_of ?df ''country''
       = Some (Object [Some ''United States, India'', None, Some ''India'', Some '' France , Spain''])"
    by (simp add: example_rows_def)
  have g: "map_of ?df ''listed_in''
       = Some (Object [Some ''Dramas, International Movies'', Some '' Dramas '', None, Some ''Comedies''])"
    by (simp add: example_rows_def)
  from first_token_extraction [OF example_rows_cleaned d c g] example_rows_cleaned d c g
  show ?thesis by (simp add: example_cleaned_def)
qed

text \<open>
  C4. Every derivation is null-safe and none aborts the run. The first half holds in every
  run that completes (\<open>data_cleaning_null_safe\<close>). The second fails: for a table of 3000
  titles whose durations all read "90min", so that no row has a second part, the run ends
  with \<^verbatim>\<open>KeyError\<close> at \<^verbatim>\<open>duration_split[1]\<close>.
\<close>

theorem cleaning_aborts_without_second_part:
  "script L example_numpy g (example_table ''90min'') = Inl KeyError"
proof -
  let ?sub = "[(''show_id'', Numeric (map (\<lambda>i. map (\<lambda>i. Some (Finite (real i))) [0..<3000] ! i) (rev [0..<3000]))),
          (''date_added'', Object (replicate 3000 (Some ''March 5, 2019''))),
          (''rating'', Object (replicate 3000 (Some ''TV-MA''))),
          (''duration'', Object (replicate 3000 (Some ''90min''))),
          (''country'', Object (replicate 3000 (Some ''United States, India''))),
          (''listed_in'', Object (replicate 3000 (Some '' Dramas '')))] :: int frame"
  have sp: "\<forall>s. Some s \<in> set (replicate 3000 (Some ''90min'')) \<longrightarrow> CHR '' '' \<notin> set (strip s)"
    by (simp add: strip_def lstrip_def rstrip_def isspace_def whitespace_def)
  have c: "data_cleaning L ?sub = Inl KeyError"
    by (rule data_cleaning_no_second_part [OF _ _ _ sp]) simp_all
  show ?thesis
    by (simp add: script_def alloc_def clean_at_def Let_def df_subset_example_table c)
qed

subsection \<open>Sampling\<close>

text \<open>
  C6, with the exception the code raises. If the full table has fewer rows than the target
  size of 3000, the sampler fails with the \<^verbatim>\<open>ValueError\<close> of pandas ("Cannot take a larger
  sample than population when 'replace=False'"); the script does not catch it, so the run
  ends there, before the subset file is written and before any cleaning, and no smaller
  sample is returned.
\<close>

theorem sampler_insufficient_rows:
  assumes "nrows df < 3000"
  shows "df_subset N g df = Inl ValueError \<and> script L N g df = Inl ValueError
       \<and> (\<forall>sub. df_subset N g df \<noteq> Inr sub)"
  using assms by (simp add: script_def alloc_def df_subset_def sample_def choice_def)

theorem sampler_insufficient_rows_witness:
  "nrows [(''title'', Object [Some ''A'', Some ''B''] :: int column)] < 3000
   \<and> df_subset example_numpy 0 [(''title'', Object [Some ''A'', Some ''B''] :: int column)]
       = Inl ValueError
   \<and> script example_pandas example_numpy 0
        [(''title'', Object [Some ''A'', Some ''B''] :: int column)] = Inl ValueError"
proof -
  have h: "nrows [(''title'', Object [Some ''A'', Some ''B''] :: int column)] < 3000"
    by (simp add: nrows_def col_len_def)
  from h sampler_insufficient_rows [OF h, of example_numpy 0 example_pandas] show ?thesis
    by simp
qed

text \<open>
  A table of two rows: the sampler fails with \<^verbatim>\<open>ValueError\<close>, which is not the
  \<^verbatim>\<open>InsufficientRowsError\<close> the specification names.
\<close>

theorem sampler_insufficient_rows_counterexample:
  "df_subset example_numpy 0 [(''title'', Object [Some ''A'', Some ''B''] :: int column)]
     = Inl ValueError
   \<and> df_subset example_numpy 0 [(''title'', Object [Some ''A'', Some ''B''] :: int column)]
     \<noteq> Inl InsufficientRowsError"
  by (simp add: df_subset_def sample_def choice_def nrows_def col_len_def)

text \<open>
  C7. Subset validity: for a rectangular table of at least 3000 rows, and a generator whose
  permutation is one, the sample is made of the rows of the input at 3000 positions
  \<open>idx\<close>: every row of the output is a row of the input, no position is taken twice
  (sampling is without replacement), and the output has exactly 3000 rows under the
  columns of the input.
\<close>

theorem sample_subset_valid:
  assumes rect: "\<forall>p\<in>set df. col_len (snd p) = nrows df"
    and perm_distinct: "distinct (permutation N (seeded N 42) (nrows df))"
    and perm_set: "set (permutation N (seeded N 42) (nrows df)) = {0..<nrows df}"
    and big: "3000 \<le> nrows df"
  shows "\<exists>sub idx. df_subset N g df = Inr sub \<and> length idx = 3000 \<and> distinct idx
           \<and> set idx \<subseteq> {0..<nrows df} \<and> nrows sub = 3000 \<and> map fst sub = map fst df
           \<and> (\<forall>k<3000. row_at sub k = row_at df (idx ! k))"
proof -
  let ?p = "permutation N (seeded N 42) (nrows df)"
  let ?idx = "take 3000 ?p"
  let ?sub = "map (\<lambda>p. (fst p, take_column ?idx (snd p))) df"
  from perm_distinct perm_set have "length ?p = nrows df"
    using distinct_card [of ?p] by simp
  with big have len: "length ?idx = 3000" by simp
  from perm_distinct have dist: "distinct ?idx" by simp
  have "set ?idx \<subseteq> set ?p" by (rule set_take_subset)
  with perm_set have sub: "set ?idx \<subseteq> {0..<nrows df}" by simp
  then have inb: "\<forall>i\<in>set ?idx. i < nrows df" by auto
  with big have r: "df_subset N g df = Inr ?sub"
    by (simp add: df_subset_def sample_def random_state_def choice_def take_rows_def)
  from big have "df \<noteq> []" by (auto simp: nrows_def)
  then obtain q qs where "df = q # qs" by (cases df) auto
  then have "nrows ?sub = col_len (take_column ?idx (snd q))" by (simp add: nrows_def)
  then have n: "nrows ?sub = 3000" by (simp only: col_len_take_column len)
  have names: "map fst ?sub = map fst df" by (simp add: comp_def)
  have rows: "\<forall>k<3000. row_at ?sub k = row_at df (?idx ! k)"
  proof (intro allI impI)
    fix k :: nat
    assume k: "k < 3000"
    have "cells (take_column ?idx (snd p)) ! k = cells (snd p) ! (?idx ! k)" if "p \<in> set df" for p
    proof -
      from that rect inb have "\<forall>i\<in>set ?idx. i < col_len (snd p)" by simp
      from cells_take_column [OF this] k len show ?thesis by simp
    qed
    then show "row_at ?sub k = row_at df (?idx ! k)"
      by (simp add: row_at_def comp_def)
  qed
  from r len dist sub n names rows show ?thesis by blast
qed

theorem sample_subset_valid_witness:
  "map (\<lambda>p. col_len (snd p)) (example_table ''90 min'') = [3000, 3000, 3000, 3000, 3000, 3000]
   \<and> nrows (example_table ''90 min'') = 3000
   \<and> permutation example_numpy (seeded example_numpy 42) 3000 = rev [0..<3000]
   \<and> (\<exists>sub idx. df_subset example_numpy 0 (example_table ''90 min'') = Inr sub
          \<and> length idx = 3000 \<and> distinct idx
          \<and> set idx \<subseteq> {0..<nrows (example_table ''90 min'')} \<and> nrows sub = 3000
          \<and> map fst sub = map fst (example_table ''90 min'')
          \<and> row_at sub 0 = row_at (example_table ''90 min'') (idx ! 0)
          \<and> row_at sub 2999 = row_at (example_table ''90 min'') (idx ! 2999))"
proof -
  have 5: "map (\<lambda>p. col_len (snd p)) (example_table ''90 min'')
        = [3000, 3000, 3000, 3000, 3000, 3000]"
    by (simp add: example_table_def col_len_def)
  have 1: "\<forall>p\<in>set (example_table ''90 min''). col_len (snd p) = nrows (example_table ''90 min'')"
    unfolding nrows_example_table by (simp add: example_table_def col_len_def)
  have 6: "permutation example_numpy (seeded example_numpy 42) 3000 = rev [0..<3000]"
    by (simp add: example_numpy_def)
  have 2: "distinct (permutation example_numpy (seeded example_numpy 42) (nrows (example_table ''90 min'')))"
    by (simp add: example_numpy_def)
  have 3: "set (permutation example_numpy (seeded example_numpy 42) (nrows (example_table ''90 min'')))
        = {0..<nrows (example_table ''90 min'')}"
    by (simp add: example_numpy_def)
  have 4: "3000 \<le> nrows (example_table ''90 min'')" by (simp add: nrows_example_table)
  from sample_subset_valid [OF 1 2 3 4, of 0] obtain sub idx where
      a: "df_subset example_numpy 0 (example_table ''90 min'') = Inr sub"
        "length idx = 3000" "distinct idx" "set idx \<subseteq> {0..<nrows (example_table ''90 min'')}"
        "nrows sub = 3000" "map fst sub = map fst (example_table ''90 min'')"
      and rows: "\<forall>k<3000. row_at sub k = row_at (example_table ''90 min'') (idx ! k)"
    by blast
  have "(0::nat) < 3000" "(2999::nat) < 3000" by simp_all
  with rows have r: "row_at sub 0 = row_at (example_table ''90 min'') (idx ! 0)"
    "row_at sub 2999 = row_at (example_table ''90 min'') (idx ! 2999)"
    by blast+
  from a r have "\<exists>sub idx. df_subset example_numpy 0 (example_table ''90 min'') = Inr sub
          \<and> length idx = 3000 \<and> distinct idx
          \<and> set idx \<subseteq> {0..<nrows (example_table ''90 min'')} \<and> nrows sub = 3000
          \<and> map fst sub = map fst (example_table ''90 min'')
          \<and> row_at sub 0 = row_at (example_table ''90 min'') (idx ! 0)
          \<and> row_at sub 2999 = row_at (example_table ''90 min'') (idx ! 2999)"
    by blast
  with 5 6 nrows_example_table [of "''90 min''"] show ?thesis by (intro conjI)
qed

subsection \<open>Rating stage\<close>

text \<open>
  C10. In the chart stage the rating grouping is applied only to rows whose \<^verbatim>\<open>rating\<close> and
  \<^verbatim>\<open>main_genre\<close> are both present: the table of the heatmap is filtered first, so the
  values \<^verbatim>\<open>simplify_rating\<close> is applied to, the column \<^verbatim>\<open>rating\<close> of the filtered table,
  hold no missing value, and the branch that sends a missing rating to "Family/Kids" is
  never taken on one.
\<close>

theorem rating_group_only_on_rated_rows:
  assumes "df_genre df = Inr g"
  shows "\<exists>r mg. map_of g ''rating'' = Some r \<and> Null \<notin> set (cells r)
           \<and> map_of g ''main_genre'' = Some mg \<and> Null \<notin> set (cells mg)
           \<and> map_of g ''rating_group'' = Some (Object (map (\<lambda>x. Some (simplify_rating x)) (cells r)))"
proof -
  from assms obtain mg0 r0 where mg0: "map_of df ''main_genre'' = Some mg0"
    and r0: "map_of df ''rating'' = Some r0"
    and g: "g = setitem (boolean_index df (mask_and (notna mg0) (notna r0))) ''rating_group''
            (Object (map (\<lambda>x. Some (simplify_rating x))
               (cells (mask_column (mask_and (notna mg0) (notna r0)) r0))))"
    by (auto simp: df_genre_def and_then_eq_Inr getitem_eq_Inr Let_def map_of_boolean_index)
  let ?m = "mask_and (notna mg0) (notna r0)"
  have 1: "map_of g ''rating'' = Some (mask_column ?m r0)"
    by (simp add: g map_of_setitem map_of_boolean_index r0)
  have 2: "map_of g ''main_genre'' = Some (mask_column ?m mg0)"
    by (simp add: g map_of_setitem map_of_boolean_index mg0)
  have 3: "Null \<notin> set (cells (mask_column ?m r0))"
    unfolding cells_mask_column notna_def by (rule notna_masked_1)
  have 4: "Null \<notin> set (cells (mask_column ?m mg0))"
    unfolding cells_mask_column notna_def by (rule notna_masked_2)
  have 5: "map_of g ''rating_group'' =
      Some (Object (map (\<lambda>x. Some (simplify_rating x)) (cells (mask_column ?m r0))))"
    by (simp add: g map_of_setitem)
  from 1 2 3 4 5 show ?thesis by blast
qed


theorem rating_group_only_on_rated_rows_witness:
  "\<exists>g. df_genre example_cleaned = Inr g
       \<and> map_of g ''rating'' = Some (Object [Some ''TV-MA'', Some ''TV-Y''])
       \<and> Null \<notin> set (cells (Object [Some ''TV-MA'', Some ''TV-Y''] :: int column))
       \<and> map_of g ''main_genre'' = Some (Object [Some ''Dramas'', Some ''Comedies''])
       \<and> Null \<notin> set (cells (Object [Some ''Dramas'', Some ''Comedies''] :: int column))
       \<and> map_of g ''rating_group'' = Some (Object [Some ''Mature'', Some ''Family/Kids''])"
proof -
  have "\<not> isl (df_genre example_cleaned)" by code_simp
  then obtain g where g: "df_genre example_cleaned = Inr g"
    by (cases "df_genre example_cleaned") auto
  have r: "(case df_genre example_cleaned of Inl e \<Rightarrow> None | Inr g \<Rightarrow> map_of g ''rating'')
        = Some (Object [Some ''TV-MA'', Some ''TV-Y''])"
    by code_simp
  have m: "(case df_genre example_cleaned of Inl e \<Rightarrow> None | Inr g \<Rightarrow> map_of g ''main_genre'')
        = Some (Object [Some ''Dramas'', Some ''Comedies''])"
    by code_simp
  from rating_group_only_on_rated_rows [OF g] r m g show ?thesis
    by (auto simp: simplify_rating_def)
qed

subsection \<open>The store\<close>

text \<open>
  C8. The cleaning never changes the sampled table in place: after a run of the script the
  frame \<^verbatim>\<open>df_subset\<close> holds is still the sample as it was drawn and written to the file;
  \<^verbatim>\<open>df\<close> holds another address, that of the copy, and there the cleaned table stands.
\<close>

theorem cleaning_leaves_sample_unchanged:
  assumes "script L N g csv = Inr w"
  shows "\<exists>sub cleaned. df_subset N g csv = Inr sub \<and> data_cleaning L sub = Inr cleaned
           \<and> heap w ! var_df_subset w = sub \<and> subset_csv w = sub
           \<and> var_df w \<noteq> var_df_subset w \<and> heap w ! var_df w = cleaned"
  using assms
  by (auto simp: script_def alloc_def clean_at_def and_then_eq_Inr Let_def)

theorem cleaning_leaves_sample_unchanged_witness:
  "\<exists>w sub cleaned. script example_pandas example_numpy 0 (example_table ''90 min'') = Inr w
       \<and> df_subset example_numpy 0 (example_table ''90 min'') = Inr sub
       \<and> data_cleaning example_pandas sub = Inr cleaned
       \<and> heap w ! var_df_subset w = sub \<and> subset_csv w = sub
       \<and> var_df w \<noteq> var_df_subset w \<and> heap w ! var_df w = cleaned"
proof -
  let ?sub = "[(''show_id'', Numeric (map (\<lambda>i. map (\<lambda>i. Some (Finite (real i))) [0..<3000] ! i) (rev [0..<3000]))),
          (''date_added'', Object (replicate 3000 (Some ''March 5, 2019''))),
          (''rating'', Object (replicate 3000 (Some ''TV-MA''))),
          (''duration'', Object (replicate 3000 (Some ''90 min''))),
          (''country'', Object (replicate 3000 (Some ''United States, India''))),
          (''listed_in'', Object (replicate 3000 (Some '' Dramas '')))] :: int frame"
  have sp: "\<exists>s. Some s \<in> set (replicate 3000 (Some ''90 min'')) \<and> CHR '' '' \<in> set (strip s)"
    by (simp add: strip_def lstrip_def rstrip_def isspace_def whitespace_def)
  have "\<exists>df'. data_cleaning example_pandas ?sub = Inr df'"
    by (rule data_cleaning_succeeds [OF _ _ _ sp]) simp_all
  then obtain cleaned where c: "data_cleaning example_pandas ?sub = Inr cleaned" ..
  have "\<exists>w. script example_pandas example_numpy 0 (example_table ''90 min'') = Inr w"
    by (simp add: script_def alloc_def clean_at_def Let_def df_subset_example_table c)
  then obtain w where w: "script example_pandas example_numpy 0 (example_table ''90 min'') = Inr w" ..
  from cleaning_leaves_sample_unchanged [OF w] w show ?thesis by blast
qed

end
